theory Spec2Isabelle
  imports Complex_Main
begin

section \<open>Conventions of the embedding\<close>

text \<open>
  The development follows the C++ sources of the HiQP core: the geometric primitives
  (\<^verbatim>\<open>geometric_point.h\<close>, \<^verbatim>\<open>geometric_box.h\<close>), the SDF collision avoidance task
  (\<^verbatim>\<open>hiqp_core/src/tasks/task_avoid_collisions_sdf.cpp\<close>, the version with the safety
  distance) and the task object (\<^verbatim>\<open>hiqp_core/src/task.cpp\<close>).

  \<^item> A C++ \<^verbatim>\<open>double\<close> is read as a \<^typ>\<open>real\<close>: the properties below are about which
    expression is stored where, not about rounding, infinities or NaN (a division by zero
    is no subject of any statement).
  \<^item> \<^verbatim>\<open>int size = parameters.size()\<close> is read as the length of the list; parameter lists
    are far shorter than \<open>2^31\<close>, where the conversion is exact.
  \<^item> Isabelle has no identifiers that end in an underscore, so a data member \<^verbatim>\<open>foo_\<close> of
    the source is the record field \<open>foo\<close>. A member whose bare name is too short or taken
    carries its class in front: \<open>box_q\<close> for \<^verbatim>\<open>q_\<close> of the box, \<open>def_e\<close> and \<open>def_J\<close> for
    \<^verbatim>\<open>e_\<close> and \<^verbatim>\<open>J_\<close> of a task definition, \<open>def_ptr\<close> and \<open>dyn_ptr\<close> for \<^verbatim>\<open>def_\<close> and
    \<^verbatim>\<open>dyn_\<close> of a task, \<open>kq_frame_id\<close> for \<^verbatim>\<open>frame_id_\<close> of the kinematic quantities.
  \<^item> A member function that changes \<^verbatim>\<open>this\<close> takes the object and returns it updated.
  \<^item> A call ends in one of three ways: it returns (with its \<^verbatim>\<open>int\<close> code), an
    \<^verbatim>\<open>assert\<close> or a null pointer stops the process, or \<^verbatim>\<open>std::vector::at\<close> throws.
    Warnings that are printed are not part of the model.
\<close>

datatype 'a outcome = Return int 'a | Abort | Throw

type_synonym vec3 = "real \<times> real \<times> real"
type_synonym mat3 = "vec3 \<times> vec3 \<times> vec3"
type_synonym quat = "real \<times> real \<times> real \<times> real"

section \<open>Geometric primitives\<close>

text \<open>
  The base class \<^verbatim>\<open>GeometricPrimitive\<close> carries the name and the frame of a primitive
  (its visibility flag and colour play no part in what follows).
\<close>

record GeometricPrimitive =
  name :: string
  frame_id :: string

subsection \<open>GeometricPoint\<close>

record GeometricPoint = GeometricPrimitive +
  kdl_p :: vec3
  eigen_p :: vec3

definition GeometricPoint_init :: "real list \<Rightarrow> GeometricPoint \<Rightarrow> int \<times> GeometricPoint" where
  "GeometricPoint_init parameters this =
     (let size = int (length parameters) in
      if size \<noteq> 3 then (- 1, this)
      else
        let pt = (parameters ! 0, parameters ! 1, parameters ! 2) in
        (0, this\<lparr>kdl_p := pt, eigen_p := (fst pt, fst (snd pt), snd (snd pt))\<rparr>))"

definition getPointKDL :: "GeometricPoint \<Rightarrow> vec3" where
  "getPointKDL this = kdl_p this"

definition getPointEigen :: "GeometricPoint \<Rightarrow> vec3" where
  "getPointEigen this = eigen_p this"

definition getX :: "GeometricPoint \<Rightarrow> real" where
  "getX this = fst (kdl_p this)"

definition getY :: "GeometricPoint \<Rightarrow> real" where
  "getY this = fst (snd (kdl_p this))"

definition getZ :: "GeometricPoint \<Rightarrow> real" where
  "getZ this = snd (snd (kdl_p this))"

subsection \<open>GeometricBox\<close>

text \<open>
  The two conversions of the linear algebra libraries that \<^verbatim>\<open>GeometricBox::init\<close> calls
  are parameters: the quaternion of the rotation \<open>Rx(a1) Ry(a2) Rz(a3)\<close> (Eigen) and the
  rotation matrix of a quaternion given as \<open>x y z w\<close> (KDL).
\<close>

record geometry_lib =
  quaternion_of_euler :: "real \<Rightarrow> real \<Rightarrow> real \<Rightarrow> quat"
  rotation_of_quaternion :: "real \<Rightarrow> real \<Rightarrow> real \<Rightarrow> real \<Rightarrow> mat3"

record GeometricBox = GeometricPrimitive +
  kdl_c :: vec3
  eigen_c :: vec3
  kdl_dim :: vec3
  eigen_dim :: vec3
  rotation_kdl :: mat3
  box_q :: quat
  scaling_matrix_kdl :: mat3
  scaling_matrix_inverted_kdl :: mat3
  scaling_matrix_eigen :: mat3

definition quat_w :: "quat \<Rightarrow> real" where "quat_w q = fst q"
definition quat_x :: "quat \<Rightarrow> real" where "quat_x q = fst (snd q)"
definition quat_y :: "quat \<Rightarrow> real" where "quat_y q = fst (snd (snd q))"
definition quat_z :: "quat \<Rightarrow> real" where "quat_z q = snd (snd (snd q))"

definition GeometricBox_init ::
  "geometry_lib \<Rightarrow> real list \<Rightarrow> GeometricBox \<Rightarrow> int \<times> GeometricBox" where
  "GeometricBox_init lib parameters this =
     (let size = int (length parameters) in
      if size \<noteq> 6 \<and> size \<noteq> 9 \<and> size \<noteq> 10 then (- 1, this)
      else
        let c = (parameters ! 0, parameters ! 1, parameters ! 2);
            d = (parameters ! 3, parameters ! 4, parameters ! 5);
            d0 = fst d; d1 = fst (snd d); d2 = snd (snd d);
            scaling = ((1 / d0, 0, 0), (0, 1 / d1, 0), (0, 0, 1 / d2));
            scaling_inverted = ((d0, 0, 0), (0, d1, 0), (0, 0, d2));
            qn = (if size = 9 then
                   quaternion_of_euler lib (parameters ! 6) (parameters ! 7) (parameters ! 8)
                 else if size = 10 then
                   (parameters ! 6, parameters ! 7, parameters ! 8, parameters ! 9)
                 else (1, 0, 0, 0))
        in (0, this\<lparr>kdl_c := c, eigen_c := (fst c, fst (snd c), snd (snd c)),
                    kdl_dim := d, eigen_dim := (d0, d1, d2),
                    rotation_kdl :=
                      rotation_of_quaternion lib (quat_x qn) (quat_y qn) (quat_z qn) (quat_w qn),
                    box_q := qn,
                    scaling_matrix_kdl := scaling,
                    scaling_matrix_inverted_kdl := scaling_inverted,
                    scaling_matrix_eigen := scaling\<rparr>))"

definition getCenterKDL :: "GeometricBox \<Rightarrow> vec3" where
  "getCenterKDL this = kdl_c this"

definition getCenterEigen :: "GeometricBox \<Rightarrow> vec3" where
  "getCenterEigen this = eigen_c this"

definition getDimensionsKDL :: "GeometricBox \<Rightarrow> vec3" where
  "getDimensionsKDL this = kdl_dim this"

definition getDimensionsEigen :: "GeometricBox \<Rightarrow> vec3" where
  "getDimensionsEigen this = eigen_dim this"

definition getQuaternion :: "GeometricBox \<Rightarrow> quat" where
  "getQuaternion this = (quat_w (box_q this), quat_x (box_q this), quat_y (box_q this),
     quat_z (box_q this))"

definition getCenterX :: "GeometricBox \<Rightarrow> real" where
  "getCenterX this = fst (kdl_c this)"

definition getCenterY :: "GeometricBox \<Rightarrow> real" where
  "getCenterY this = fst (snd (kdl_c this))"

definition getCenterZ :: "GeometricBox \<Rightarrow> real" where
  "getCenterZ this = snd (snd (kdl_c this))"

definition getDimX :: "GeometricBox \<Rightarrow> real" where
  "getDimX this = fst (kdl_dim this)"

definition getDimY :: "GeometricBox \<Rightarrow> real" where
  "getDimY this = fst (snd (kdl_dim this))"

definition getDimZ :: "GeometricBox \<Rightarrow> real" where
  "getDimZ this = snd (snd (kdl_dim this))"

subsection \<open>GeometricSphere and the primitive map\<close>

text \<open>
  Modelled from the spec: \<^verbatim>\<open>geometric_sphere.h\<close> is not under \<^verbatim>\<open>src/\<close>. A sphere is a
  primitive with a centre and a radius; the SDF task reads them through
  \<^verbatim>\<open>getX\<close>, \<^verbatim>\<open>getY\<close>, \<^verbatim>\<open>getZ\<close> and \<^verbatim>\<open>getRadius\<close>.
\<close>

record GeometricSphere = GeometricPrimitive +
  sphere_kdl_p :: vec3
  radius :: real

definition sphere_getX :: "GeometricSphere \<Rightarrow> real" where
  "sphere_getX this = fst (sphere_kdl_p this)"

definition sphere_getY :: "GeometricSphere \<Rightarrow> real" where
  "sphere_getY this = fst (snd (sphere_kdl_p this))"

definition sphere_getZ :: "GeometricSphere \<Rightarrow> real" where
  "sphere_getZ this = snd (snd (sphere_kdl_p this))"

definition getRadius :: "GeometricSphere \<Rightarrow> real" where
  "getRadius this = radius this"

text \<open>
  A \<^verbatim>\<open>shared_ptr<GeometricPrimitive>\<close> points to a point, to a sphere or to a primitive of
  one of the other five types, of which only the base class members matter here. Where
  the source compares \<^verbatim>\<open>getType()\<close> with \<^verbatim>\<open>"point"\<close> and \<^verbatim>\<open>"sphere"\<close> and casts the
  pointer, the model matches on the constructor.
\<close>

datatype other_primitive_type = Line_type | Plane_type | Box_type | Cylinder_type | Frame_type

datatype primitive_ptr =
  PointPtr GeometricPoint
  | SpherePtr GeometricSphere
  | OtherPtr other_primitive_type GeometricPrimitive

fun getType :: "primitive_ptr \<Rightarrow> string" where
  "getType (PointPtr _) = ''point''"
| "getType (SpherePtr _) = ''sphere''"
| "getType (OtherPtr Line_type _) = ''line''"
| "getType (OtherPtr Plane_type _) = ''plane''"
| "getType (OtherPtr Box_type _) = ''box''"
| "getType (OtherPtr Cylinder_type _) = ''cylinder''"
| "getType (OtherPtr Frame_type _) = ''frame''"

fun getFrameId :: "primitive_ptr \<Rightarrow> string" where
  "getFrameId (PointPtr pt) = frame_id pt"
| "getFrameId (SpherePtr sp) = frame_id sp"
| "getFrameId (OtherPtr _ pr) = frame_id pr"

text \<open>
  Modelled from the spec: \<^verbatim>\<open>geometric_primitive_map.h\<close> is not under \<^verbatim>\<open>src/\<close>.
  \<^verbatim>\<open>getGeometricPrimitive<T>(name)\<close> returns the primitive of that name and of type \<open>T\<close>, and
  a null pointer when there is none; the registry keeps the primitives by type and name.
\<close>

record GeometricPrimitiveMap =
  point_map :: "string \<rightharpoonup> GeometricPoint"
  sphere_map :: "string \<rightharpoonup> GeometricSphere"

definition getGeometricPrimitive_Point ::
  "GeometricPrimitiveMap \<Rightarrow> string \<Rightarrow> GeometricPoint option" where
  "getGeometricPrimitive_Point gpm nm = point_map gpm nm"

definition getGeometricPrimitive_Sphere ::
  "GeometricPrimitiveMap \<Rightarrow> string \<Rightarrow> GeometricSphere option" where
  "getGeometricPrimitive_Sphere gpm nm = sphere_map gpm nm"

section \<open>Robot state and external collaborators\<close>

text \<open>
  The kinematics library (KDL), the collision checker and \<^verbatim>\<open>robot_state.h\<close> are outside
  \<^verbatim>\<open>src/\<close>. What the code under \<^verbatim>\<open>src/\<close> asks of them is a parameter of the model: the
  two tree solvers answer with a frame resp. with the columns of a Jacobian, or fail
  (a negative return code, \<open>None\<close>); the collision checker answers a bulk query with a
  list of gradients or fails (\<^verbatim>\<open>false\<close>, \<open>None\<close>), and judges a gradient valid or not.
\<close>

type_synonym Twist = "vec3 \<times> vec3"

record KDL_Frame =
  frame_p :: vec3
  frame_M :: mat3

record KDL_Tree =
  segments :: "string \<rightharpoonup> nat"
  root_segment_name :: string
  JntToCart :: "real list \<Rightarrow> string \<Rightarrow> KDL_Frame option"
  JntToJac :: "real list \<Rightarrow> string \<Rightarrow> (nat \<Rightarrow> Twist) option"

record RobotState =
  kdl_tree :: KDL_Tree
  kdl_jnt_array_vel_q :: "real list"
  joint_is_writable :: "nat \<Rightarrow> bool"

text \<open>
  Modelled from the spec: \<^verbatim>\<open>robot_state.h\<close> is not under \<^verbatim>\<open>src/\<close>. The number of joints
  of the robot state is the number of its joint positions, and each joint has a
  writability flag.
\<close>

definition getNumJoints :: "RobotState \<Rightarrow> nat" where
  "getNumJoints rs = length (kdl_jnt_array_vel_q rs)"

definition isQNrWritable :: "RobotState \<Rightarrow> nat \<Rightarrow> bool" where
  "isQNrWritable rs i = joint_is_writable rs i"

text \<open>
  Modelled from the spec: \<^verbatim>\<open>utilities.h\<close> is not under \<^verbatim>\<open>src/\<close>. The kinematic tree is
  a graph of named links; \<^verbatim>\<open>kdl_getQNrFromLinkName\<close> returns the joint number of the named
  link, and \<open>-1\<close>, the value that \<^verbatim>\<open>TaskAvoidCollisionsSDF::init\<close> tests for, when the tree
  has no link of that name.
\<close>

definition kdl_getQNrFromLinkName :: "KDL_Tree \<Rightarrow> string \<Rightarrow> int" where
  "kdl_getQNrFromLinkName tree link_name =
     (case segments tree link_name of None \<Rightarrow> - 1 | Some q_nr \<Rightarrow> int q_nr)"

record SDFCollisionCheck =
  obstacleGradientBulk :: "vec3 list \<Rightarrow> string \<Rightarrow> vec3 list option"
  isValid :: "vec3 \<Rightarrow> bool"

subsection \<open>Vectors, twists and matrices\<close>

definition vec_add :: "vec3 \<Rightarrow> vec3 \<Rightarrow> vec3" where
  "vec_add a b = (case a of (a0, a1, a2) \<Rightarrow> case b of (b0, b1, b2) \<Rightarrow>
     (a0 + b0, a1 + b1, a2 + b2))"

definition vec_neg :: "vec3 \<Rightarrow> vec3" where
  "vec_neg a = (case a of (a0, a1, a2) \<Rightarrow> (- a0, - a1, - a2))"

definition vec_cross :: "vec3 \<Rightarrow> vec3 \<Rightarrow> vec3" where
  "vec_cross a b = (case a of (a0, a1, a2) \<Rightarrow> case b of (b0, b1, b2) \<Rightarrow>
     (a1 * b2 - a2 * b1, a2 * b0 - a0 * b2, a0 * b1 - a1 * b0))"

definition vec_dot :: "vec3 \<Rightarrow> vec3 \<Rightarrow> real" where
  "vec_dot a b = (case a of (a0, a1, a2) \<Rightarrow> case b of (b0, b1, b2) \<Rightarrow>
     a0 * b0 + a1 * b1 + a2 * b2)"

definition mat_vec :: "mat3 \<Rightarrow> vec3 \<Rightarrow> vec3" where
  "mat_vec m v = (case m of (r0, r1, r2) \<Rightarrow> (vec_dot r0 v, vec_dot r1 v, vec_dot r2 v))"

definition squaredNorm :: "vec3 \<Rightarrow> real" where
  "squaredNorm v = vec_dot v v"

definition norm3 :: "vec3 \<Rightarrow> real" where
  "norm3 v = sqrt (squaredNorm v)"

text \<open>Eigen's \<^verbatim>\<open>normalize\<close> divides a vector by its norm and leaves the zero vector.\<close>

definition normalize3 :: "vec3 \<Rightarrow> vec3" where
  "normalize3 v = (let z = squaredNorm v in
     if z > 0 then (case v of (v0, v1, v2) \<Rightarrow> (v0 / sqrt z, v1 / sqrt z, v2 / sqrt z)) else v)"

definition Twist_Zero :: Twist where
  "Twist_Zero = ((0, 0, 0), (0, 0, 0))"

definition Twist_vel :: "Twist \<Rightarrow> vec3" where
  "Twist_vel t = fst t"

definition Twist_rot :: "Twist \<Rightarrow> vec3" where
  "Twist_rot t = snd t"

text \<open>KDL: the twist of the reference point moved by \<open>v\<close>, column by column.\<close>

definition RefPoint :: "Twist \<Rightarrow> vec3 \<Rightarrow> Twist" where
  "RefPoint t v = (vec_add (Twist_vel t) (vec_cross (Twist_rot t) v), Twist_rot t)"

definition changeRefPoint :: "Twist list \<Rightarrow> vec3 \<Rightarrow> Twist list" where
  "changeRefPoint jac v = map (\<lambda>t. RefPoint t v) jac"

definition Frame_Identity :: KDL_Frame where
  "Frame_Identity = \<lparr>frame_p = (0, 0, 0), frame_M = ((1, 0, 0), (0, 1, 0), (0, 0, 1))\<rparr>"

text \<open>An Eigen matrix of doubles: its rows, and its number of columns (kept also when
  there is no row).\<close>

record MatrixXd =
  mat_rows :: "real list list"
  mat_cols :: nat

definition append_row :: "MatrixXd \<Rightarrow> real list \<Rightarrow> MatrixXd" where
  "append_row m r = m\<lparr>mat_rows := mat_rows m @ [r]\<rparr>"

section \<open>Task definitions\<close>

text \<open>
  The four attributes that a task hands to its definition and to its dynamics, and the
  members of the base class \<^verbatim>\<open>TaskDefinition\<close> that the code under \<^verbatim>\<open>src/\<close> reads and
  writes: the task function \<^verbatim>\<open>e_\<close>, the task Jacobian \<^verbatim>\<open>J_\<close>, the task types (\<open>-1\<close> for
  less-or-equal, \<open>0\<close> for equal, \<open>1\<close> for greater-or-equal), the number of dimensions and
  the performance measures.
\<close>

record task_attributes =
  task_name :: string
  priority :: nat
  active :: bool
  visible :: bool

record TaskDefinition = task_attributes +
  def_e :: "real list"
  def_J :: MatrixXd
  task_types :: "int list"
  n_dimensions :: nat
  performance_measures :: "real list"

definition LESS_OR_EQUAL :: int where "LESS_OR_EQUAL = - 1"
definition EQUALITY :: int where "EQUALITY = 0"
definition GREATER_OR_EQUAL :: int where "GREATER_OR_EQUAL = 1"

subsection \<open>TaskAvoidCollisionsSDF\<close>

definition SAFETY_DISTANCE :: real where
  "SAFETY_DISTANCE = 5 / 1000"

record KinematicQuantities =
  kq_frame_id :: string
  ee_J :: "Twist list"
  ee_frame :: KDL_Frame
  ee_p :: vec3

text \<open>
  The two solvers are null pointers until \<^verbatim>\<open>init\<close> has made them from the tree of the
  robot state. The markers that \<^verbatim>\<open>update\<close> publishes for the visualizer are not part of
  the state.
\<close>

record TaskAvoidCollisionsSDF = TaskDefinition +
  primitives :: "primitive_ptr list"
  root_frame_id :: string
  fk_solver_pos :: "(real list \<Rightarrow> string \<Rightarrow> KDL_Frame option) option"
  fk_solver_jac :: "(real list \<Rightarrow> string \<Rightarrow> (nat \<Rightarrow> Twist) option) option"

text \<open>
  The object that the constructor makes: empty vectors, an empty matrix, no primitives and
  null solvers. (The collision checker that it creates is handed to \<^verbatim>\<open>update\<close>.)
\<close>

definition new_TaskAvoidCollisionsSDF :: TaskAvoidCollisionsSDF where
  "new_TaskAvoidCollisionsSDF =
     \<lparr>task_name = [], priority = 0, active = False, visible = False,
      def_e = [], def_J = \<lparr>mat_rows = [], mat_cols = 0\<rparr>, task_types = [],
      n_dimensions = 0, performance_measures = [],
      primitives = [], root_frame_id = [], fk_solver_pos = None, fk_solver_jac = None\<rparr>"

definition reset :: "TaskAvoidCollisionsSDF \<Rightarrow> TaskAvoidCollisionsSDF" where
  "reset this = this\<lparr>n_dimensions := 0, task_types := [], primitives := []\<rparr>"

text \<open>The loop of \<^verbatim>\<open>init\<close> over the names \<^verbatim>\<open>parameters.at(1)\<close>, \<^verbatim>\<open>parameters.at(2)\<close>, ...\<close>

fun init_primitives ::
  "GeometricPrimitiveMap \<Rightarrow> RobotState \<Rightarrow> string list \<Rightarrow> TaskAvoidCollisionsSDF
     \<Rightarrow> int \<times> TaskAvoidCollisionsSDF" where
  "init_primitives gpm rs [] this = (0, this)"
| "init_primitives gpm rs (nm # names) this =
     (case getGeometricPrimitive_Point gpm nm of
        Some point \<Rightarrow>
          if kdl_getQNrFromLinkName (kdl_tree rs) (frame_id point) = - 1 then (- 2, this)
          else init_primitives gpm rs names
                 (this\<lparr>primitives := primitives this @ [PointPtr point],
                        n_dimensions := n_dimensions this + 1\<rparr>)
      | None \<Rightarrow>
          (case getGeometricPrimitive_Sphere gpm nm of
             Some sphere \<Rightarrow>
               if kdl_getQNrFromLinkName (kdl_tree rs) (frame_id sphere) = - 1 then (- 2, this)
               else init_primitives gpm rs names
                      (this\<lparr>primitives := primitives this @ [SpherePtr sphere],
                             n_dimensions := n_dimensions this + 1\<rparr>)
           | None \<Rightarrow> (- 2, this)))"

definition TaskAvoidCollisionsSDF_init ::
  "GeometricPrimitiveMap \<Rightarrow> string list \<Rightarrow> RobotState \<Rightarrow> TaskAvoidCollisionsSDF
     \<Rightarrow> int \<times> TaskAvoidCollisionsSDF" where
  "TaskAvoidCollisionsSDF_init gpm parameters rs this =
     (let size = int (length parameters) in
      if size < 2 then (- 2, this)
      else
        (case init_primitives gpm rs (tl parameters) (reset this) of
           (c, this1) \<Rightarrow>
             if c \<noteq> 0 then (c, this1)
             else
               (0, this1\<lparr>performance_measures := [],
                         task_types := replicate (n_dimensions this1) 1 @ task_types this1,
                         fk_solver_pos := Some (JntToCart (kdl_tree rs)),
                         fk_solver_jac := Some (JntToJac (kdl_tree rs)),
                         root_frame_id := root_segment_name (kdl_tree rs)\<rparr>)))"

text \<open>
  \<^verbatim>\<open>forwardKinematics\<close>: the frame and the Jacobian of the link, then the columns of the
  joints that are not writable are set to zero, for \<open>i = 0, ..., getNumJoints - 1\<close>.
  The Jacobian solver fills the columns that \<^verbatim>\<open>kin_q.ee_J_\<close> has.
\<close>

definition mask_columns :: "RobotState \<Rightarrow> Twist list \<Rightarrow> Twist list" where
  "mask_columns rs jac =
     fold (\<lambda>i jac. if \<not> isQNrWritable rs i then jac[i := Twist_Zero] else jac)
       [0..<getNumJoints rs] jac"

definition forwardKinematics ::
  "TaskAvoidCollisionsSDF \<Rightarrow> KinematicQuantities \<Rightarrow> RobotState \<Rightarrow> KinematicQuantities outcome"
  where
  "forwardKinematics this kin_q rs =
     (case fk_solver_pos this of
        None \<Rightarrow> Abort
      | Some jnt_to_cart \<Rightarrow>
          (case jnt_to_cart (kdl_jnt_array_vel_q rs) (kq_frame_id kin_q) of
             None \<Rightarrow> Return (- 2) kin_q
           | Some fr \<Rightarrow>
               (case fk_solver_jac this of
                  None \<Rightarrow> Abort
                | Some jnt_to_jac \<Rightarrow>
                    (case jnt_to_jac (kdl_jnt_array_vel_q rs) (kq_frame_id kin_q) of
                       None \<Rightarrow> Return (- 2) (kin_q\<lparr>ee_frame := fr\<rparr>)
                     | Some col \<Rightarrow>
                         Return 0
                           (kin_q\<lparr>ee_frame := fr,
                                  ee_J := mask_columns rs
                                            (map col [0..<length (ee_J kin_q)])\<rparr>)))))"

text \<open>
  \<^verbatim>\<open>primitiveForwardKinematics\<close> fills \<^verbatim>\<open>kin_q_list\<close> with one entry for a point or a
  sphere, whose Jacobian has one column per joint; other primitives are not implemented.
\<close>

definition kin_q_at ::
  "TaskAvoidCollisionsSDF \<Rightarrow> string \<Rightarrow> vec3 \<Rightarrow> nat \<Rightarrow> RobotState
     \<Rightarrow> KinematicQuantities list outcome" where
  "kin_q_at this frame coord n rs =
     (let kin_q = \<lparr>kq_frame_id = frame, ee_J = replicate n Twist_Zero,
                   ee_frame = Frame_Identity, ee_p = (0, 0, 0)\<rparr>
      in case forwardKinematics this kin_q rs of
           Abort \<Rightarrow> Abort
         | Throw \<Rightarrow> Throw
         | Return c kq \<Rightarrow>
             if c < 0 then Return (- 2) []
             else Return 0
                    [kq\<lparr>ee_J := changeRefPoint (ee_J kq) (mat_vec (frame_M (ee_frame kq)) coord),
                        ee_p := vec_add (frame_p (ee_frame kq))
                                  (mat_vec (frame_M (ee_frame kq)) coord)\<rparr>])"

fun primitiveForwardKinematics ::
  "TaskAvoidCollisionsSDF \<Rightarrow> primitive_ptr \<Rightarrow> RobotState \<Rightarrow> KinematicQuantities list outcome"
  where
  "primitiveForwardKinematics this (PointPtr point) rs =
     kin_q_at this (frame_id point) (getPointKDL point) (getNumJoints rs) rs"
| "primitiveForwardKinematics this (SpherePtr sphere) rs =
     kin_q_at this (frame_id sphere) (sphere_getX sphere, sphere_getY sphere, sphere_getZ sphere)
       (length (kdl_jnt_array_vel_q rs)) rs"
| "primitiveForwardKinematics this (OtherPtr _ _) rs = Return (- 2) []"

text \<open>
  \<^verbatim>\<open>appendTaskJacobian\<close> adds one row to \<^verbatim>\<open>J_\<close> for each gradient: a row of zeros for a
  gradient that is not valid, else the negated normalized gradient times the velocity
  Jacobian (the upper three rows of \<^verbatim>\<open>ee_J_\<close>). Assigning a row of another width stops
  in Eigen's assertion.
\<close>

definition jacobian_row :: "vec3 \<Rightarrow> KinematicQuantities \<Rightarrow> real list" where
  "jacobian_row gradient kq =
     map (\<lambda>t. vec_dot (vec_neg (normalize3 gradient)) (Twist_vel t)) (ee_J kq)"

fun appendTaskJacobian_loop ::
  "SDFCollisionCheck \<Rightarrow> (KinematicQuantities \<times> vec3) list \<Rightarrow> TaskAvoidCollisionsSDF
     \<Rightarrow> TaskAvoidCollisionsSDF outcome" where
  "appendTaskJacobian_loop cc [] this = Return 0 this"
| "appendTaskJacobian_loop cc ((kq, gradient) # rest) this =
     (if \<not> isValid cc gradient then
        appendTaskJacobian_loop cc rest
          (this\<lparr>def_J := append_row (def_J this) (replicate (mat_cols (def_J this)) 0)\<rparr>)
      else if length (ee_J kq) \<noteq> mat_cols (def_J this) then Abort
      else
        appendTaskJacobian_loop cc rest
          (this\<lparr>def_J := append_row (def_J this) (jacobian_row gradient kq)\<rparr>))"

definition appendTaskJacobian ::
  "SDFCollisionCheck \<Rightarrow> KinematicQuantities list \<Rightarrow> vec3 list \<Rightarrow> TaskAvoidCollisionsSDF
     \<Rightarrow> TaskAvoidCollisionsSDF outcome" where
  "appendTaskJacobian cc kin_q_list gradients this =
     (if length kin_q_list \<noteq> length gradients then Abort
      else appendTaskJacobian_loop cc (zip kin_q_list gradients) this)"

text \<open>
  \<^verbatim>\<open>appendTaskFunction\<close> adds one entry to \<^verbatim>\<open>e_\<close> for each gradient: zero for a gradient
  that is not valid, else the norm of the gradient less the safety distance, and less the
  radius for a sphere.
\<close>

definition function_value :: "SDFCollisionCheck \<Rightarrow> primitive_ptr \<Rightarrow> vec3 \<Rightarrow> real" where
  "function_value cc primitive gradient =
     (if \<not> isValid cc gradient then 0
      else
        let d = norm3 gradient - SAFETY_DISTANCE in
        (case primitive of
           PointPtr _ \<Rightarrow> d
         | SpherePtr sphere \<Rightarrow> d - getRadius sphere
         | OtherPtr _ _ \<Rightarrow> 0))"

fun appendTaskFunction_loop ::
  "SDFCollisionCheck \<Rightarrow> primitive_ptr \<Rightarrow> vec3 list \<Rightarrow> TaskAvoidCollisionsSDF
     \<Rightarrow> TaskAvoidCollisionsSDF" where
  "appendTaskFunction_loop cc primitive [] this = this"
| "appendTaskFunction_loop cc primitive (gradient # rest) this =
     appendTaskFunction_loop cc primitive rest
       (this\<lparr>def_e := def_e this @ [function_value cc primitive gradient]\<rparr>)"

definition appendTaskFunction ::
  "SDFCollisionCheck \<Rightarrow> primitive_ptr \<Rightarrow> KinematicQuantities list \<Rightarrow> vec3 list
     \<Rightarrow> TaskAvoidCollisionsSDF \<Rightarrow> TaskAvoidCollisionsSDF outcome" where
  "appendTaskFunction cc primitive kin_q_list gradients this =
     (if length kin_q_list \<noteq> length gradients then Abort
      else Return 0 (appendTaskFunction_loop cc primitive gradients this))"

text \<open>
  \<^verbatim>\<open>update\<close>: \<^verbatim>\<open>e_\<close> and \<^verbatim>\<open>J_\<close> are emptied, then filled primitive by primitive. The
  assertions are those of \<^verbatim>\<open>update\<close> (a gradient was found) and of
  \<^verbatim>\<open>publishGradientVisualization\<close> (as many gradients as test points).
\<close>

fun update_primitives ::
  "SDFCollisionCheck \<Rightarrow> RobotState \<Rightarrow> primitive_ptr list \<Rightarrow> TaskAvoidCollisionsSDF
     \<Rightarrow> TaskAvoidCollisionsSDF outcome" where
  "update_primitives cc rs [] this = Return 0 this"
| "update_primitives cc rs (primitive # rest) this =
     (case primitiveForwardKinematics this primitive rs of
        Abort \<Rightarrow> Abort
      | Throw \<Rightarrow> Throw
      | Return c kin_q_list \<Rightarrow>
          if c < 0 then Return (- 2) this
          else
            let test_pts = map ee_p kin_q_list in
            (case obstacleGradientBulk cc test_pts (root_frame_id this) of
               None \<Rightarrow> Return (- 2) this
             | Some gradients \<Rightarrow>
                 if \<not> length gradients > 0 then Abort
                 else if length gradients \<noteq> length test_pts then Abort
                 else
                   (case appendTaskJacobian cc kin_q_list gradients this of
                      Abort \<Rightarrow> Abort
                    | Throw \<Rightarrow> Throw
                    | Return _ this1 \<Rightarrow>
                        (case appendTaskFunction cc primitive kin_q_list gradients this1 of
                           Abort \<Rightarrow> Abort
                         | Throw \<Rightarrow> Throw
                         | Return _ this2 \<Rightarrow> update_primitives cc rs rest this2))))"

definition TaskAvoidCollisionsSDF_update ::
  "SDFCollisionCheck \<Rightarrow> RobotState \<Rightarrow> TaskAvoidCollisionsSDF
     \<Rightarrow> TaskAvoidCollisionsSDF outcome" where
  "TaskAvoidCollisionsSDF_update cc rs this =
     update_primitives cc rs (primitives this)
       (this\<lparr>def_e := [], def_J := \<lparr>mat_rows = [], mat_cols = getNumJoints rs\<rparr>\<rparr>)"

section \<open>Task\<close>

text \<open>
  Of the classes that \<^verbatim>\<open>Task\<close> constructs, \<^verbatim>\<open>TaskAvoidCollisionsSDF\<close> is under \<^verbatim>\<open>src/\<close>.
  The other definition classes and the three dynamics classes are not: an object of one of
  them has the members of its base class and a state of its own (\<open>'x\<close>, \<open>'y\<close>), and what
  its constructor, its \<^verbatim>\<open>init\<close> and its \<^verbatim>\<open>update\<close> do is a parameter of the model, as are
  \<^verbatim>\<open>getInitialValue\<close> and \<^verbatim>\<open>getFinalValue\<close> of the base class.
\<close>

record TaskDynamics = task_attributes +
  e_dot_star :: "real list"

datatype template_arg = T_Point | T_Line | T_Plane | T_Box | T_Cylinder | T_Sphere | T_Frame

datatype definition_class =
  TaskFullPose_class
  | TaskJntConfig_class
  | TaskAvoidCollisionsSDF_class
  | TaskJntLimits_class
  | TaskGeometricProjection_class template_arg template_arg
  | TaskGeometricAlignment_class template_arg template_arg

datatype dynamics_class =
  DynamicsFirstOrder_class | DynamicsJntLimits_class | DynamicsMinimalJerk_class

datatype 'x definition_ptr =
  SDF_ptr TaskAvoidCollisionsSDF
  | Other_ptr definition_class "'x TaskDefinition_scheme"

datatype 'y dynamics_ptr =
  Dynamics_ptr dynamics_class "'y TaskDynamics_scheme"

record ('x, 'y) absent_classes =
  construct_definition :: "definition_class \<Rightarrow> 'x TaskDefinition_scheme"
  definition_init ::
    "definition_class \<Rightarrow> string list \<Rightarrow> RobotState \<Rightarrow> 'x TaskDefinition_scheme
       \<Rightarrow> 'x TaskDefinition_scheme outcome"
  definition_update ::
    "definition_class \<Rightarrow> RobotState \<Rightarrow> 'x TaskDefinition_scheme
       \<Rightarrow> 'x TaskDefinition_scheme outcome"
  getInitialValue :: "'x definition_ptr \<Rightarrow> real list"
  getFinalValue :: "'x definition_ptr \<Rightarrow> RobotState \<Rightarrow> real list"
  construct_dynamics :: "dynamics_class \<Rightarrow> 'y TaskDynamics_scheme"
  dynamics_init ::
    "dynamics_class \<Rightarrow> string list \<Rightarrow> RobotState \<Rightarrow> real list \<Rightarrow> real list
       \<Rightarrow> 'y TaskDynamics_scheme \<Rightarrow> 'y TaskDynamics_scheme outcome"
  dynamics_update ::
    "dynamics_class \<Rightarrow> RobotState \<Rightarrow> real list \<Rightarrow> MatrixXd
       \<Rightarrow> 'y TaskDynamics_scheme \<Rightarrow> 'y TaskDynamics_scheme outcome"

text \<open>
  The members of a task: its four attributes and the two owned objects, null until
  \<^verbatim>\<open>init\<close> constructs them. (The primitive map is handed to the calls that read it.)
\<close>

record ('x, 'y) Task = task_attributes +
  def_ptr :: "'x definition_ptr option"
  dyn_ptr :: "'y dynamics_ptr option"

subsection \<open>Calls through the two pointers\<close>

fun def_e_of :: "'x definition_ptr \<Rightarrow> real list" where
  "def_e_of (SDF_ptr d) = def_e d"
| "def_e_of (Other_ptr c d) = def_e d"

fun def_J_of :: "'x definition_ptr \<Rightarrow> MatrixXd" where
  "def_J_of (SDF_ptr d) = def_J d"
| "def_J_of (Other_ptr c d) = def_J d"

fun task_types_of :: "'x definition_ptr \<Rightarrow> int list" where
  "task_types_of (SDF_ptr d) = task_types d"
| "task_types_of (Other_ptr c d) = task_types d"

fun e_dot_star_of :: "'y dynamics_ptr \<Rightarrow> real list" where
  "e_dot_star_of (Dynamics_ptr c y) = e_dot_star y"

text \<open>The four assignments \<^verbatim>\<open>def_->task_name_ = task_name_\<close>, ... and the same for \<^verbatim>\<open>dyn_\<close>.\<close>

fun set_definition_attributes ::
  "string \<Rightarrow> nat \<Rightarrow> bool \<Rightarrow> bool \<Rightarrow> 'x definition_ptr \<Rightarrow> 'x definition_ptr" where
  "set_definition_attributes n p a v (SDF_ptr d) =
     SDF_ptr (d\<lparr>task_name := n, priority := p, active := a, visible := v\<rparr>)"
| "set_definition_attributes n p a v (Other_ptr c d) =
     Other_ptr c (d\<lparr>task_name := n, priority := p, active := a, visible := v\<rparr>)"

fun set_dynamics_attributes ::
  "string \<Rightarrow> nat \<Rightarrow> bool \<Rightarrow> bool \<Rightarrow> 'y dynamics_ptr \<Rightarrow> 'y dynamics_ptr" where
  "set_dynamics_attributes n p a v (Dynamics_ptr c y) =
     Dynamics_ptr c (y\<lparr>task_name := n, priority := p, active := a, visible := v\<rparr>)"

definition map_outcome :: "('a \<Rightarrow> 'b) \<Rightarrow> 'a outcome \<Rightarrow> 'b outcome" where
  "map_outcome f r = (case r of Return c x \<Rightarrow> Return c (f x) | Abort \<Rightarrow> Abort | Throw \<Rightarrow> Throw)"

text \<open>
  Modelled from the spec: \<^verbatim>\<open>TaskDefinition::initialize\<close> is declared in
  \<^verbatim>\<open>task_definition.h\<close>, which is not under \<^verbatim>\<open>src/\<close>. It parses the parameters and
  resolves the primitive names, which is what the \<^verbatim>\<open>init\<close> of the class of the object
  does, and it fails when that fails.
\<close>

fun TaskDefinition_initialize ::
  "('x, 'y) absent_classes \<Rightarrow> GeometricPrimitiveMap \<Rightarrow> string list \<Rightarrow> RobotState
     \<Rightarrow> 'x definition_ptr \<Rightarrow> 'x definition_ptr outcome" where
  "TaskDefinition_initialize env gpm parameters rs (SDF_ptr d) =
     (case TaskAvoidCollisionsSDF_init gpm parameters rs d of (c, d') \<Rightarrow> Return c (SDF_ptr d'))"
| "TaskDefinition_initialize env gpm parameters rs (Other_ptr c d) =
     map_outcome (Other_ptr c) (definition_init env c parameters rs d)"

fun TaskDefinition_update ::
  "('x, 'y) absent_classes \<Rightarrow> SDFCollisionCheck \<Rightarrow> RobotState \<Rightarrow> 'x definition_ptr
     \<Rightarrow> 'x definition_ptr outcome" where
  "TaskDefinition_update env cc rs (SDF_ptr d) =
     map_outcome SDF_ptr (TaskAvoidCollisionsSDF_update cc rs d)"
| "TaskDefinition_update env cc rs (Other_ptr c d) =
     map_outcome (Other_ptr c) (definition_update env c rs d)"

fun TaskDynamics_init ::
  "('x, 'y) absent_classes \<Rightarrow> string list \<Rightarrow> RobotState \<Rightarrow> real list \<Rightarrow> real list
     \<Rightarrow> 'y dynamics_ptr \<Rightarrow> 'y dynamics_ptr outcome" where
  "TaskDynamics_init env parameters rs e_initial e_final (Dynamics_ptr c y) =
     map_outcome (Dynamics_ptr c) (dynamics_init env c parameters rs e_initial e_final y)"

fun TaskDynamics_update ::
  "('x, 'y) absent_classes \<Rightarrow> RobotState \<Rightarrow> real list \<Rightarrow> MatrixXd \<Rightarrow> 'y dynamics_ptr
     \<Rightarrow> 'y dynamics_ptr outcome" where
  "TaskDynamics_update env rs e J (Dynamics_ptr c y) =
     map_outcome (Dynamics_ptr c) (dynamics_update env c rs e J y)"

subsection \<open>Construction from the first token\<close>

text \<open>\<^verbatim>\<open>std::vector::at\<close> throws when the index is out of range.\<close>

definition vector_at :: "'a list \<Rightarrow> nat \<Rightarrow> 'a option" where
  "vector_at xs i = (if i < length xs then Some (xs ! i) else None)"

definition make_shared_definition ::
  "('x, 'y) absent_classes \<Rightarrow> definition_class \<Rightarrow> 'x definition_ptr" where
  "make_shared_definition env c =
     (if c = TaskAvoidCollisionsSDF_class then SDF_ptr new_TaskAvoidCollisionsSDF
      else Other_ptr c (construct_definition env c))"

definition make_shared_dynamics ::
  "('x, 'y) absent_classes \<Rightarrow> dynamics_class \<Rightarrow> 'y dynamics_ptr" where
  "make_shared_dynamics env c = Dynamics_ptr c (construct_dynamics env c)"

definition projection_class :: "string \<Rightarrow> string \<Rightarrow> definition_class option" where
  "projection_class prim_type1 prim_type2 =
     (if prim_type1 = ''point'' \<and> prim_type2 = ''point'' then
        Some (TaskGeometricProjection_class T_Point T_Point)
      else if prim_type1 = ''point'' \<and> prim_type2 = ''line'' then
        Some (TaskGeometricProjection_class T_Point T_Line)
      else if prim_type1 = ''point'' \<and> prim_type2 = ''plane'' then
        Some (TaskGeometricProjection_class T_Point T_Plane)
      else if prim_type1 = ''point'' \<and> prim_type2 = ''box'' then
        Some (TaskGeometricProjection_class T_Point T_Box)
      else if prim_type1 = ''point'' \<and> prim_type2 = ''cylinder'' then
        Some (TaskGeometricProjection_class T_Point T_Cylinder)
      else if prim_type1 = ''point'' \<and> prim_type2 = ''sphere'' then
        Some (TaskGeometricProjection_class T_Point T_Sphere)
      else if prim_type1 = ''line'' \<and> prim_type2 = ''line'' then
        Some (TaskGeometricProjection_class T_Line T_Line)
      else if prim_type1 = ''sphere'' \<and> prim_type2 = ''plane'' then
        Some (TaskGeometricProjection_class T_Sphere T_Plane)
      else if prim_type1 = ''sphere'' \<and> prim_type2 = ''sphere'' then
        Some (TaskGeometricProjection_class T_Sphere T_Sphere)
      else if prim_type1 = ''frame'' \<and> prim_type2 = ''frame'' then
        Some (TaskGeometricProjection_class T_Frame T_Frame)
      else None)"

definition alignment_class :: "string \<Rightarrow> string \<Rightarrow> definition_class option" where
  "alignment_class prim_type1 prim_type2 =
     (if prim_type1 = ''line'' \<and> prim_type2 = ''line'' then
        Some (TaskGeometricAlignment_class T_Line T_Line)
      else if prim_type1 = ''line'' \<and> prim_type2 = ''plane'' then
        Some (TaskGeometricAlignment_class T_Line T_Plane)
      else if prim_type1 = ''line'' \<and> prim_type2 = ''cylinder'' then
        Some (TaskGeometricAlignment_class T_Line T_Cylinder)
      else if prim_type1 = ''line'' \<and> prim_type2 = ''sphere'' then
        Some (TaskGeometricAlignment_class T_Line T_Sphere)
      else if prim_type1 = ''frame'' \<and> prim_type2 = ''frame'' then
        Some (TaskGeometricAlignment_class T_Frame T_Frame)
      else None)"

definition construct_pair ::
  "('x, 'y) absent_classes \<Rightarrow> (string \<Rightarrow> string \<Rightarrow> definition_class option) \<Rightarrow> string list
     \<Rightarrow> ('x, 'y) Task \<Rightarrow> ('x, 'y) Task outcome" where
  "construct_pair env class_of def_params this =
     (case vector_at def_params 1 of
        None \<Rightarrow> Throw
      | Some prim_type1 \<Rightarrow>
          (case vector_at def_params 2 of
             None \<Rightarrow> Throw
           | Some prim_type2 \<Rightarrow>
               (case class_of prim_type1 prim_type2 of
                  Some c \<Rightarrow> Return 0 (this\<lparr>def_ptr := Some (make_shared_definition env c)\<rparr>)
                | None \<Rightarrow> Return (- 1) this)))"

definition constructDefinition ::
  "('x, 'y) absent_classes \<Rightarrow> string list \<Rightarrow> ('x, 'y) Task \<Rightarrow> ('x, 'y) Task outcome" where
  "constructDefinition env def_params this =
     (case vector_at def_params 0 of
        None \<Rightarrow> Throw
      | Some type \<Rightarrow>
          if type = ''TDefFullPose'' then
            Return 0 (this\<lparr>def_ptr := Some (make_shared_definition env TaskFullPose_class)\<rparr>)
          else if type = ''TDefJntConfig'' then
            Return 0 (this\<lparr>def_ptr := Some (make_shared_definition env TaskJntConfig_class)\<rparr>)
          else if type = ''TDefAvoidCollisionsSDF'' then
            Return 0
              (this\<lparr>def_ptr := Some (make_shared_definition env TaskAvoidCollisionsSDF_class)\<rparr>)
          else if type = ''TDefJntLimits'' then
            Return 0 (this\<lparr>def_ptr := Some (make_shared_definition env TaskJntLimits_class)\<rparr>)
          else if type = ''TDefGeomProj'' then
            construct_pair env projection_class def_params this
          else if type = ''TDefGeomAlign'' then
            construct_pair env alignment_class def_params this
          else Return (- 1) this)"

definition constructDynamics ::
  "('x, 'y) absent_classes \<Rightarrow> string list \<Rightarrow> ('x, 'y) Task \<Rightarrow> ('x, 'y) Task outcome" where
  "constructDynamics env dyn_params this =
     (case vector_at dyn_params 0 of
        None \<Rightarrow> Throw
      | Some type \<Rightarrow>
          if type = ''TDynFirstOrder'' then
            Return 0 (this\<lparr>dyn_ptr := Some (make_shared_dynamics env DynamicsFirstOrder_class)\<rparr>)
          else if type = ''TDynJntLimits'' then
            Return 0 (this\<lparr>dyn_ptr := Some (make_shared_dynamics env DynamicsJntLimits_class)\<rparr>)
          else if type = ''TDynMinJerk'' then
            Return 0 (this\<lparr>dyn_ptr := Some (make_shared_dynamics env DynamicsMinimalJerk_class)\<rparr>)
          else Return (- 1) this)"

subsection \<open>init, update and the consistency check\<close>

text \<open>
  \<^verbatim>\<open>Task::init\<close>. After the two constructions both pointers are set. The call of
  \<^verbatim>\<open>checkConsistency\<close> at the end of the source is commented out, so it is no part of
  the function.
\<close>

definition initialize_both ::
  "('x, 'y) absent_classes \<Rightarrow> GeometricPrimitiveMap \<Rightarrow> string list \<Rightarrow> string list
     \<Rightarrow> RobotState \<Rightarrow> ('x, 'y) Task \<Rightarrow> ('x, 'y) Task outcome" where
  "initialize_both env gpm def_params dyn_params rs this =
     (case (def_ptr this, dyn_ptr this) of
        (Some d, Some y) \<Rightarrow>
          let d1 = set_definition_attributes (task_name this) (priority this) (active this)
                     (visible this) d;
              y1 = set_dynamics_attributes (task_name this) (priority this) (active this)
                     (visible this) y
          in
          (case TaskDefinition_initialize env gpm def_params rs d1 of
             Abort \<Rightarrow> Abort
           | Throw \<Rightarrow> Throw
           | Return c d2 \<Rightarrow>
               if c \<noteq> 0 then Return (- 5) (this\<lparr>def_ptr := Some d2, dyn_ptr := Some y1\<rparr>)
               else
                 (case TaskDynamics_init env dyn_params rs (getInitialValue env d2)
                         (getFinalValue env d2 rs) y1 of
                    Abort \<Rightarrow> Abort
                  | Throw \<Rightarrow> Throw
                  | Return c' y2 \<Rightarrow>
                      if c' \<noteq> 0 then
                        Return (- 6) (this\<lparr>def_ptr := Some d2, dyn_ptr := Some y2\<rparr>)
                      else Return 0 (this\<lparr>def_ptr := Some d2, dyn_ptr := Some y2\<rparr>)))
      | _ \<Rightarrow> Abort)"

definition Task_init ::
  "('x, 'y) absent_classes \<Rightarrow> GeometricPrimitiveMap \<Rightarrow> string list \<Rightarrow> string list
     \<Rightarrow> RobotState \<Rightarrow> ('x, 'y) Task \<Rightarrow> ('x, 'y) Task outcome" where
  "Task_init env gpm def_params dyn_params rs this =
     (if length def_params \<le> 0 then Return (- 1) this
      else if length dyn_params \<le> 0 then Return (- 2) this
      else
        (case constructDefinition env def_params this of
           Abort \<Rightarrow> Abort
         | Throw \<Rightarrow> Throw
         | Return c this1 \<Rightarrow>
             if c \<noteq> 0 then Return (- 3) this1
             else
               (case constructDynamics env dyn_params this1 of
                  Abort \<Rightarrow> Abort
                | Throw \<Rightarrow> Throw
                | Return c' this2 \<Rightarrow>
                    if c' \<noteq> 0 then Return (- 4) this2
                    else initialize_both env gpm def_params dyn_params rs this2)))"

definition Task_update ::
  "('x, 'y) absent_classes \<Rightarrow> SDFCollisionCheck \<Rightarrow> RobotState \<Rightarrow> ('x, 'y) Task
     \<Rightarrow> ('x, 'y) Task outcome" where
  "Task_update env cc rs this =
     (case (def_ptr this, dyn_ptr this) of
        (Some d, Some y) \<Rightarrow>
          (case TaskDefinition_update env cc rs d of
             Abort \<Rightarrow> Abort
           | Throw \<Rightarrow> Throw
           | Return c d1 \<Rightarrow>
               if c \<noteq> 0 then Return (- 2) (this\<lparr>def_ptr := Some d1\<rparr>)
               else
                 (case TaskDynamics_update env rs (def_e_of d1) (def_J_of d1) y of
                    Abort \<Rightarrow> Abort
                  | Throw \<Rightarrow> Throw
                  | Return c' y1 \<Rightarrow>
                      if c' \<noteq> 0 then
                        Return (- 2) (this\<lparr>def_ptr := Some d1, dyn_ptr := Some y1\<rparr>)
                      else Return 0 (this\<lparr>def_ptr := Some d1, dyn_ptr := Some y1\<rparr>)))
      | _ \<Rightarrow> Return (- 2) this)"

definition checkConsistency :: "('x, 'y) Task \<Rightarrow> RobotState \<Rightarrow> bool" where
  "checkConsistency this rs =
     (case def_ptr this of
        None \<Rightarrow> False
      | Some d \<Rightarrow>
          (case dyn_ptr this of
             None \<Rightarrow> False
           | Some y \<Rightarrow>
               if length (def_e_of d) \<noteq> length (mat_rows (def_J_of d)) then False
               else if length (task_types_of d) \<noteq> length (mat_rows (def_J_of d)) then False
               else if length (e_dot_star_of y) \<noteq> length (mat_rows (def_J_of d)) then False
               else if mat_cols (def_J_of d) \<noteq> getNumJoints rs then False
               else True))"

section \<open>Notions used in the statements\<close>

text \<open>
  The primitive that a name resolves to in \<^verbatim>\<open>TaskAvoidCollisionsSDF::init\<close> (a point
  before a sphere), the links of the kinematic tree, and a name that resolves to a
  primitive whose frame is a link of the tree.
\<close>

definition resolve :: "GeometricPrimitiveMap \<Rightarrow> string \<Rightarrow> primitive_ptr option" where
  "resolve gpm nm =
     (case getGeometricPrimitive_Point gpm nm of
        Some point \<Rightarrow> Some (PointPtr point)
      | None \<Rightarrow> map_option SpherePtr (getGeometricPrimitive_Sphere gpm nm))"

definition is_link :: "KDL_Tree \<Rightarrow> string \<Rightarrow> bool" where
  "is_link tree link_name = (segments tree link_name \<noteq> None)"

definition attached :: "GeometricPrimitiveMap \<Rightarrow> RobotState \<Rightarrow> string \<Rightarrow> bool" where
  "attached gpm rs nm =
     (case resolve gpm nm of None \<Rightarrow> False
      | Some pr \<Rightarrow> is_link (kdl_tree rs) (getFrameId pr))"

text \<open>
  The task after the two append calls of \<^verbatim>\<open>update\<close> for a primitive with one test point,
  its kinematic quantities \<open>kq\<close> and the gradient \<open>g\<close>.
\<close>

definition appended ::
  "SDFCollisionCheck \<Rightarrow> primitive_ptr \<Rightarrow> KinematicQuantities \<Rightarrow> vec3
     \<Rightarrow> TaskAvoidCollisionsSDF \<Rightarrow> TaskAvoidCollisionsSDF" where
  "appended cc p kq g this =
     this\<lparr>def_J := append_row (def_J this)
                       (if \<not> isValid cc g then replicate (mat_cols (def_J this)) 0
                        else jacobian_row g kq),
           def_e := def_e this @ [function_value cc p g]\<rparr>"

text \<open>
  The type names that the parameter protocol knows, the pairs of primitive types for which
  a projection resp. an alignment definition exists, and the parameter lists that name
  one of them.
\<close>

definition definition_type_names :: "string list" where
  "definition_type_names =
     [''TDefFullPose'', ''TDefJntConfig'', ''TDefJntLimits'', ''TDefGeomProj'', ''TDefGeomAlign'',
      ''TDefAvoidCollisionsSDF'']"

definition dynamics_type_names :: "string list" where
  "dynamics_type_names = [''TDynFirstOrder'', ''TDynJntLimits'', ''TDynMinJerk'']"

definition projection_pairs :: "(string \<times> string) list" where
  "projection_pairs =
     [(''point'', ''point''), (''point'', ''line''), (''point'', ''plane''), (''point'', ''box''),
      (''point'', ''cylinder''), (''point'', ''sphere''), (''line'', ''line''),
      (''sphere'', ''plane''), (''sphere'', ''sphere''), (''frame'', ''frame'')]"

definition alignment_pairs :: "(string \<times> string) list" where
  "alignment_pairs =
     [(''line'', ''line''), (''line'', ''plane''), (''line'', ''cylinder''), (''line'', ''sphere''),
      (''frame'', ''frame'')]"

definition definition_accepted :: "string list \<Rightarrow> bool" where
  "definition_accepted def_params \<longleftrightarrow>
     hd def_params \<in> set definition_type_names \<and>
     (hd def_params = ''TDefGeomProj'' \<longrightarrow>
        (def_params ! 1, def_params ! 2) \<in> set projection_pairs) \<and>
     (hd def_params = ''TDefGeomAlign'' \<longrightarrow>
        (def_params ! 1, def_params ! 2) \<in> set alignment_pairs)"

definition dynamics_accepted :: "string list \<Rightarrow> bool" where
  "dynamics_accepted dyn_params \<longleftrightarrow> hd dyn_params \<in> set dynamics_type_names"

section \<open>Sample values\<close>

text \<open>
  The values on which the statements of this development are evaluated: a point, a box,
  an instance of the library conversions, a sphere, a point on a frame that is no link,
  a registry, a robot with two joints of which the second is not writable, a collision
  checker that answers every query with the gradient \<open>(3, 4, 0)\<close>, one that judges
  every gradient invalid, and an SDF task on the point and the sphere.
\<close>

definition sample_point :: GeometricPoint where
  "sample_point = \<lparr>name = ''p1'', frame_id = ''ee'', kdl_p = (7, 8, 9), eigen_p = (7, 8, 9)\<rparr>"

definition sample_lib :: geometry_lib where
  "sample_lib =
     \<lparr>quaternion_of_euler = (\<lambda>a1 a2 a3.
        (cos (a1 / 2) * cos (a2 / 2) * cos (a3 / 2) - sin (a1 / 2) * sin (a2 / 2) * sin (a3 / 2),
         sin (a1 / 2) * cos (a2 / 2) * cos (a3 / 2) + cos (a1 / 2) * sin (a2 / 2) * sin (a3 / 2),
         cos (a1 / 2) * sin (a2 / 2) * cos (a3 / 2) - sin (a1 / 2) * cos (a2 / 2) * sin (a3 / 2),
         cos (a1 / 2) * cos (a2 / 2) * sin (a3 / 2) + sin (a1 / 2) * sin (a2 / 2) * cos (a3 / 2))),
      rotation_of_quaternion = (\<lambda>x y z w.
        ((w * w + x * x - y * y - z * z, 2 * x * y - 2 * w * z, 2 * x * z + 2 * w * y),
         (2 * x * y + 2 * w * z, w * w - x * x + y * y - z * z, 2 * y * z - 2 * w * x),
         (2 * x * z - 2 * w * y, 2 * y * z + 2 * w * x, w * w - x * x - y * y + z * z)))\<rparr>"

definition sample_box :: GeometricBox where
  "sample_box =
     \<lparr>name = ''b1'', frame_id = ''world'', kdl_c = (0, 0, 0), eigen_c = (0, 0, 0),
      kdl_dim = (1, 1, 1), eigen_dim = (1, 1, 1),
      rotation_kdl = ((1, 0, 0), (0, 1, 0), (0, 0, 1)), box_q = (1, 0, 0, 0),
      scaling_matrix_kdl = ((1, 0, 0), (0, 1, 0), (0, 0, 1)),
      scaling_matrix_inverted_kdl = ((1, 0, 0), (0, 1, 0), (0, 0, 1)),
      scaling_matrix_eigen = ((1, 0, 0), (0, 1, 0), (0, 0, 1))\<rparr>"

definition sample_sphere :: GeometricSphere where
  "sample_sphere = \<lparr>name = ''s1'', frame_id = ''ee'', sphere_kdl_p = (0, 0, 0), radius = 1 / 10\<rparr>"

definition loose_point :: GeometricPoint where
  "loose_point = \<lparr>name = ''loose'', frame_id = ''table'', kdl_p = (0, 0, 0), eigen_p = (0, 0, 0)\<rparr>"

definition sample_gpm :: GeometricPrimitiveMap where
  "sample_gpm =
     \<lparr>point_map = [''p1'' \<mapsto> sample_point, ''loose'' \<mapsto> loose_point],
      sphere_map = [''s1'' \<mapsto> sample_sphere]\<rparr>"

definition sample_tree :: KDL_Tree where
  "sample_tree =
     \<lparr>segments = [''base'' \<mapsto> 0, ''ee'' \<mapsto> 1],
      root_segment_name = ''base'',
      JntToCart = (\<lambda>q fr. if fr = ''ee''
                     then Some \<lparr>frame_p = (1, 0, 0), frame_M = ((1, 0, 0), (0, 1, 0), (0, 0, 1))\<rparr>
                     else None),
      JntToJac = (\<lambda>q fr. if fr = ''ee'' then Some (\<lambda>i. ((1, 2, 2), (0, 0, 1))) else None)\<rparr>"

definition sample_rs :: RobotState where
  "sample_rs = \<lparr>kdl_tree = sample_tree, kdl_jnt_array_vel_q = [0, 0],
                joint_is_writable = (\<lambda>i. i = 0)\<rparr>"

definition sample_cc :: SDFCollisionCheck where
  "sample_cc = \<lparr>obstacleGradientBulk = (\<lambda>pts fr. Some (map (\<lambda>p. (3, 4, 0)) pts)),
                isValid = (\<lambda>g. True)\<rparr>"

definition blind_cc :: SDFCollisionCheck where
  "blind_cc = \<lparr>obstacleGradientBulk = (\<lambda>pts fr. Some (map (\<lambda>p. (0, 0, 0)) pts)),
               isValid = (\<lambda>g. False)\<rparr>"

definition sample_sdf :: TaskAvoidCollisionsSDF where
  "sample_sdf =
     snd (TaskAvoidCollisionsSDF_init sample_gpm [''TDefAvoidCollisionsSDF'', ''p1'', ''s1'']
            sample_rs new_TaskAvoidCollisionsSDF)"

definition sample_kq_point :: KinematicQuantities where
  "sample_kq_point =
     \<lparr>kq_frame_id = ''ee'', ee_J = [((- 7, 9, 2), (0, 0, 1)), ((0, 0, 0), (0, 0, 0))],
      ee_frame = \<lparr>frame_p = (1, 0, 0), frame_M = ((1, 0, 0), (0, 1, 0), (0, 0, 1))\<rparr>,
      ee_p = (8, 8, 9)\<rparr>"

definition sample_kq_sphere :: KinematicQuantities where
  "sample_kq_sphere =
     \<lparr>kq_frame_id = ''ee'', ee_J = [((1, 2, 2), (0, 0, 1)), ((0, 0, 0), (0, 0, 0))],
      ee_frame = \<lparr>frame_p = (1, 0, 0), frame_M = ((1, 0, 0), (0, 1, 0), (0, 0, 1))\<rparr>,
      ee_p = (1, 0, 0)\<rparr>"

text \<open>
  For the task: an instance of the classes that are not under \<^verbatim>\<open>src/\<close> (objects that
  initialise and update with code \<open>0\<close>; dynamics that answer with the negated task
  function), a task that was never initialised, an inactive task on the SDF task above, a
  collision checker whose query fails, and the tasks that the evaluations below arrive at.
\<close>

definition sample_classes :: "(unit, unit) absent_classes" where
  "sample_classes =
     \<lparr>construct_definition = (\<lambda>c.
        \<lparr>task_name = [], priority = 0, active = False, visible = False,
         def_e = [], def_J = \<lparr>mat_rows = [], mat_cols = 0\<rparr>, task_types = [],
         n_dimensions = 0, performance_measures = []\<rparr>),
      definition_init = (\<lambda>c parameters rs d. Return 0 d),
      definition_update = (\<lambda>c rs d. Return 0 d),
      getInitialValue = def_e_of,
      getFinalValue = (\<lambda>d rs. map (\<lambda>x. 0) (def_e_of d)),
      construct_dynamics = (\<lambda>c.
        \<lparr>task_name = [], priority = 0, active = False, visible = False, e_dot_star = []\<rparr>),
      dynamics_init = (\<lambda>c parameters rs e_initial e_final y. Return 0 y),
      dynamics_update = (\<lambda>c rs e J y. Return 0 (y\<lparr>e_dot_star := map uminus e\<rparr>))\<rparr>"

definition sample_Task :: "(unit, unit) Task" where
  "sample_Task =
     \<lparr>task_name = ''t1'', priority = 1, active = False, visible = True,
      def_ptr = None, dyn_ptr = None\<rparr>"

definition inactive_Task :: "(unit, unit) Task" where
  "inactive_Task =
     sample_Task\<lparr>def_ptr := Some (SDF_ptr sample_sdf),
                 dyn_ptr := Some (make_shared_dynamics sample_classes DynamicsFirstOrder_class)\<rparr>"

definition failing_cc :: SDFCollisionCheck where
  "failing_cc = \<lparr>obstacleGradientBulk = (\<lambda>pts fr. None), isValid = (\<lambda>g. True)\<rparr>"

definition blind_result :: "(unit, unit) Task" where
  "blind_result =
     inactive_Task
       \<lparr>def_ptr := Some (SDF_ptr (sample_sdf
           \<lparr>def_e := [0, 0], def_J := \<lparr>mat_rows = [[0, 0], [0, 0]], mat_cols = 2\<rparr>\<rparr>)),
        dyn_ptr := Some (Dynamics_ptr DynamicsFirstOrder_class
           \<lparr>task_name = [], priority = 0, active = False, visible = False,
            e_dot_star = [0, 0]\<rparr>)\<rparr>"

definition failing_result :: "(unit, unit) Task" where
  "failing_result =
     inactive_Task
       \<lparr>def_ptr := Some (SDF_ptr (sample_sdf
           \<lparr>def_e := [], def_J := \<lparr>mat_rows = [], mat_cols = 2\<rparr>\<rparr>))\<rparr>"

definition named_sdf :: TaskAvoidCollisionsSDF where
  "named_sdf = new_TaskAvoidCollisionsSDF
     \<lparr>task_name := ''t1'', priority := 1, active := False, visible := True\<rparr>"

definition constructed_Task :: "(unit, unit) Task" where
  "constructed_Task = sample_Task
     \<lparr>def_ptr := Some (SDF_ptr new_TaskAvoidCollisionsSDF),
      dyn_ptr := Some (Dynamics_ptr DynamicsFirstOrder_class
           \<lparr>task_name = [], priority = 0, active = False, visible = False, e_dot_star = []\<rparr>)\<rparr>"

definition named_dynamics :: "unit dynamics_ptr" where
  "named_dynamics = Dynamics_ptr DynamicsFirstOrder_class
     \<lparr>task_name = ''t1'', priority = 1, active = False, visible = True, e_dot_star = []\<rparr>"

definition initialised_sdf :: TaskAvoidCollisionsSDF where
  "initialised_sdf = named_sdf
     \<lparr>task_types := [1, 1], n_dimensions := 2, performance_measures := [],
      primitives := [PointPtr sample_point, SpherePtr sample_sphere],
      root_frame_id := ''base'',
      fk_solver_pos := Some (JntToCart sample_tree),
      fk_solver_jac := Some (JntToJac sample_tree)\<rparr>"

definition initialised_Task :: "(unit, unit) Task" where
  "initialised_Task = constructed_Task\<lparr>def_ptr := Some (SDF_ptr initialised_sdf),
                                       dyn_ptr := Some named_dynamics\<rparr>"

section \<open>Results on the geometric primitives\<close>

text \<open>
  Claim C8. The initialisation of a point fails exactly when it is not given three
  parameters, the initialisation of a box exactly when it is given neither six, nine nor
  ten; a failed initialisation returns the primitive as it was.
\<close>

theorem init_fails_iff_invalid_arity:
  "(fst (GeometricPoint_init ps pt) \<noteq> 0 \<longleftrightarrow> length ps \<noteq> 3) \<and>
   (fst (GeometricPoint_init ps pt) \<noteq> 0 \<longrightarrow> GeometricPoint_init ps pt = (- 1, pt)) \<and>
   (fst (GeometricBox_init lib bs bx) \<noteq> 0 \<longleftrightarrow> length bs \<notin> {6, 9, 10}) \<and>
   (fst (GeometricBox_init lib bs bx) \<noteq> 0 \<longrightarrow> GeometricBox_init lib bs bx = (- 1, bx))"
  by (simp add: GeometricPoint_init_def GeometricBox_init_def Let_def)


theorem init_fails_iff_invalid_arity_witness:
  "fst (GeometricPoint_init [1, 2] sample_point) \<noteq> 0 \<and>
   GeometricPoint_init [1, 2] sample_point = (- 1, sample_point) \<and>
   fst (GeometricBox_init sample_lib [1, 2, 3, 4, 5, 6, 7] sample_box) \<noteq> 0 \<and>
   GeometricBox_init sample_lib [1, 2, 3, 4, 5, 6, 7] sample_box = (- 1, sample_box)"
  using init_fails_iff_invalid_arity
    [of "[1, 2]" sample_point sample_lib "[1, 2, 3, 4, 5, 6, 7]" sample_box]
  by simp

text \<open>
  Claim C9. With three parameters a point initialises and its accessors return them; with
  six, nine or ten parameters a box initialises, its centre and dimension accessors return
  the first six parameters, and with ten parameters the quaternion accessor returns the
  last four.
\<close>

theorem init_accessors_roundtrip:
  "(length ps = 3 \<longrightarrow>
      fst (GeometricPoint_init ps pt) = 0 \<and>
      getX (snd (GeometricPoint_init ps pt)) = ps ! 0 \<and>
      getY (snd (GeometricPoint_init ps pt)) = ps ! 1 \<and>
      getZ (snd (GeometricPoint_init ps pt)) = ps ! 2 \<and>
      getPointKDL (snd (GeometricPoint_init ps pt)) = (ps ! 0, ps ! 1, ps ! 2) \<and>
      getPointEigen (snd (GeometricPoint_init ps pt)) = (ps ! 0, ps ! 1, ps ! 2)) \<and>
   (length bs \<in> {6, 9, 10} \<longrightarrow>
      fst (GeometricBox_init lib bs bx) = 0 \<and>
      getCenterX (snd (GeometricBox_init lib bs bx)) = bs ! 0 \<and>
      getCenterY (snd (GeometricBox_init lib bs bx)) = bs ! 1 \<and>
      getCenterZ (snd (GeometricBox_init lib bs bx)) = bs ! 2 \<and>
      getDimX (snd (GeometricBox_init lib bs bx)) = bs ! 3 \<and>
      getDimY (snd (GeometricBox_init lib bs bx)) = bs ! 4 \<and>
      getDimZ (snd (GeometricBox_init lib bs bx)) = bs ! 5 \<and>
      getCenterKDL (snd (GeometricBox_init lib bs bx)) = (bs ! 0, bs ! 1, bs ! 2) \<and>
      getCenterEigen (snd (GeometricBox_init lib bs bx)) = (bs ! 0, bs ! 1, bs ! 2) \<and>
      getDimensionsKDL (snd (GeometricBox_init lib bs bx)) = (bs ! 3, bs ! 4, bs ! 5) \<and>
      getDimensionsEigen (snd (GeometricBox_init lib bs bx)) = (bs ! 3, bs ! 4, bs ! 5) \<and>
      (length bs = 10 \<longrightarrow>
         getQuaternion (snd (GeometricBox_init lib bs bx)) = (bs ! 6, bs ! 7, bs ! 8, bs ! 9)))"
proof -
  have point: "length ps = 3 \<Longrightarrow> GeometricPoint_init ps pt =
      (0, pt\<lparr>kdl_p := (ps ! 0, ps ! 1, ps ! 2), eigen_p := (ps ! 0, ps ! 1, ps ! 2)\<rparr>)"
    by (simp add: GeometricPoint_init_def Let_def)
  have box: "length bs \<in> {6, 9, 10} \<Longrightarrow> fst (GeometricBox_init lib bs bx) = 0 \<and>
      kdl_c (snd (GeometricBox_init lib bs bx)) = (bs ! 0, bs ! 1, bs ! 2) \<and>
      eigen_c (snd (GeometricBox_init lib bs bx)) = (bs ! 0, bs ! 1, bs ! 2) \<and>
      kdl_dim (snd (GeometricBox_init lib bs bx)) = (bs ! 3, bs ! 4, bs ! 5) \<and>
      eigen_dim (snd (GeometricBox_init lib bs bx)) = (bs ! 3, bs ! 4, bs ! 5)"
    by (auto simp add: GeometricBox_init_def Let_def)
  have quat: "length bs = 10 \<Longrightarrow>
      box_q (snd (GeometricBox_init lib bs bx)) = (bs ! 6, bs ! 7, bs ! 8, bs ! 9)"
    by (simp add: GeometricBox_init_def Let_def)
  show ?thesis
    using point box quat
    by (simp add: getX_def getY_def getZ_def getPointKDL_def getPointEigen_def
        getCenterX_def getCenterY_def getCenterZ_def getDimX_def getDimY_def getDimZ_def
        getCenterKDL_def getCenterEigen_def getDimensionsKDL_def getDimensionsEigen_def
        getQuaternion_def quat_w_def quat_x_def quat_y_def quat_z_def)
qed

theorem init_accessors_roundtrip_witness:
  "length [1, 2, 3 :: real] = 3 \<and>
   fst (GeometricPoint_init [1, 2, 3] sample_point) = 0 \<and>
   getX (snd (GeometricPoint_init [1, 2, 3] sample_point)) = 1 \<and>
   getY (snd (GeometricPoint_init [1, 2, 3] sample_point)) = 2 \<and>
   getZ (snd (GeometricPoint_init [1, 2, 3] sample_point)) = 3 \<and>
   length [1, 2, 3, 4, 5, 6, 7, 8, 9, 10 :: real] \<in> {6, 9, 10} \<and>
   fst (GeometricBox_init sample_lib [1, 2, 3, 4, 5, 6, 7, 8, 9, 10] sample_box) = 0 \<and>
   getCenterX (snd (GeometricBox_init sample_lib [1, 2, 3, 4, 5, 6, 7, 8, 9, 10] sample_box)) = 1 \<and>
   getDimZ (snd (GeometricBox_init sample_lib [1, 2, 3, 4, 5, 6, 7, 8, 9, 10] sample_box)) = 6 \<and>
   getQuaternion (snd (GeometricBox_init sample_lib [1, 2, 3, 4, 5, 6, 7, 8, 9, 10] sample_box))
     = (7, 8, 9, 10)"
  using init_accessors_roundtrip
    [of "[1, 2, 3]" sample_point "[1, 2, 3, 4, 5, 6, 7, 8, 9, 10]" sample_lib sample_box]
  by simp

section \<open>Results on the SDF avoidance task\<close>

lemma getType_constructor:
  "(getType p = ''point'' \<longleftrightarrow> (\<exists>point. p = PointPtr point)) \<and>
   (getType p = ''sphere'' \<longleftrightarrow> (\<exists>sphere. p = SpherePtr sphere))"
proof (cases p)
  case (OtherPtr ty pr)
  then show ?thesis by (cases ty) simp_all
qed simp_all

lemma QNr_minus_one: "kdl_getQNrFromLinkName tree nm = - 1 \<longleftrightarrow> \<not> is_link tree nm"
  by (simp add: kdl_getQNrFromLinkName_def is_link_def split: option.splits)

lemma init_primitives_code:
  "fst (init_primitives gpm rs names this) = 0 \<or> fst (init_primitives gpm rs names this) = - 2"
  by (induction names arbitrary: this) (auto split: option.splits)

lemma init_primitives_ok_iff:
  "fst (init_primitives gpm rs names this) = 0 \<longleftrightarrow> (\<forall>nm \<in> set names. attached gpm rs nm)"
  by (induction names arbitrary: this)
     (auto simp: attached_def resolve_def QNr_minus_one split: option.splits)

lemma init_primitives_ok:
  "init_primitives gpm rs names this = (0, this') \<Longrightarrow>
     map Some (primitives this') = map Some (primitives this) @ map (resolve gpm) names \<and>
     n_dimensions this' = n_dimensions this + length names \<and>
     task_types this' = task_types this"
proof (induction names arbitrary: this)
  case Nil
  then show ?case by simp
next
  case (Cons nm names)
  show ?case
  proof (cases "getGeometricPrimitive_Point gpm nm")
    case None
    then obtain sphere where sp: "getGeometricPrimitive_Sphere gpm nm = Some sphere"
      using Cons.prems by (cases "getGeometricPrimitive_Sphere gpm nm") auto
    with None Cons.prems have
      "init_primitives gpm rs names
         (this\<lparr>primitives := primitives this @ [SpherePtr sphere],
               n_dimensions := n_dimensions this + 1\<rparr>) = (0, this')"
      by (simp split: if_splits)
    from Cons.IH [OF this] None sp show ?thesis by (simp add: resolve_def)
  next
    case (Some point)
    with Cons.prems have
      "init_primitives gpm rs names
         (this\<lparr>primitives := primitives this @ [PointPtr point],
               n_dimensions := n_dimensions this + 1\<rparr>) = (0, this')"
      by (simp split: if_splits)
    from Cons.IH [OF this] Some show ?thesis by (simp add: resolve_def)
  qed
qed

text \<open>
  Claim C10. \<^verbatim>\<open>TaskAvoidCollisionsSDF::init\<close> returns \<open>-2\<close> when it is given fewer than two
  parameters, when a listed name resolves to no point and no sphere, and when the frame of
  a resolved primitive is no link of the kinematic tree; it returns \<open>0\<close> in every other
  case, and then the task has one dimension, one primitive and one task type for each
  listed name.
\<close>

theorem sdf_init_result:
  "(length parameters < 2 \<longrightarrow>
      fst (TaskAvoidCollisionsSDF_init gpm parameters rs this) = - 2) \<and>
   ((\<exists>nm \<in> set (tl parameters). resolve gpm nm = None) \<longrightarrow>
      fst (TaskAvoidCollisionsSDF_init gpm parameters rs this) = - 2) \<and>
   ((\<exists>nm \<in> set (tl parameters). \<exists>pr. resolve gpm nm = Some pr \<and>
        \<not> is_link (kdl_tree rs) (getFrameId pr)) \<longrightarrow>
      fst (TaskAvoidCollisionsSDF_init gpm parameters rs this) = - 2) \<and>
   (fst (TaskAvoidCollisionsSDF_init gpm parameters rs this) = 0 \<longleftrightarrow>
      2 \<le> length parameters \<and> (\<forall>nm \<in> set (tl parameters). attached gpm rs nm)) \<and>
   (fst (TaskAvoidCollisionsSDF_init gpm parameters rs this) = 0 \<longrightarrow>
      n_dimensions (snd (TaskAvoidCollisionsSDF_init gpm parameters rs this))
        = length parameters - 1 \<and>
      map Some (primitives (snd (TaskAvoidCollisionsSDF_init gpm parameters rs this)))
        = map (resolve gpm) (tl parameters) \<and>
      length (task_types (snd (TaskAvoidCollisionsSDF_init gpm parameters rs this)))
        = length parameters - 1)"
proof -
  let ?r = "TaskAvoidCollisionsSDF_init gpm parameters rs this"
  let ?l = "init_primitives gpm rs (tl parameters) (reset this)"
  have code: "fst ?r = (if length parameters < 2 then - 2 else fst ?l)"
    by (auto simp: TaskAvoidCollisionsSDF_init_def Let_def split: prod.splits)
  have two: "fst ?r = 0 \<or> fst ?r = - 2"
    using code init_primitives_code [of gpm rs "tl parameters" "reset this"] by auto
  have iff: "fst ?r = 0 \<longleftrightarrow>
      2 \<le> length parameters \<and> (\<forall>nm \<in> set (tl parameters). attached gpm rs nm)"
    using code init_primitives_ok_iff [of gpm rs "tl parameters" "reset this"] by auto
  have unresolved: "(\<exists>nm \<in> set (tl parameters). resolve gpm nm = None) \<Longrightarrow> fst ?r = - 2"
    using two iff by (auto simp: attached_def)
  have loose: "(\<exists>nm \<in> set (tl parameters). \<exists>pr. resolve gpm nm = Some pr \<and>
        \<not> is_link (kdl_tree rs) (getFrameId pr)) \<Longrightarrow> fst ?r = - 2"
    using two iff by (auto simp: attached_def)
  have ok: "fst ?r = 0 \<Longrightarrow>
      n_dimensions (snd ?r) = length parameters - 1 \<and>
      map Some (primitives (snd ?r)) = map (resolve gpm) (tl parameters) \<and>
      length (task_types (snd ?r)) = length parameters - 1"
  proof -
    assume r0: "fst ?r = 0"
    then have len: "2 \<le> length parameters" using iff by simp
    from r0 code len have "fst ?l = 0" by simp
    then obtain this1 where l: "?l = (0, this1)" by (cases ?l) auto
    from init_primitives_ok [OF l]
    have p: "map Some (primitives this1) = map (resolve gpm) (tl parameters)"
      and n: "n_dimensions this1 = length parameters - 1"
      and t: "task_types this1 = []"
      by (simp_all add: reset_def)
    from len l have "snd ?r = this1\<lparr>performance_measures := [],
                         task_types := replicate (n_dimensions this1) 1 @ task_types this1,
                         fk_solver_pos := Some (JntToCart (kdl_tree rs)),
                         fk_solver_jac := Some (JntToJac (kdl_tree rs)),
                         root_frame_id := root_segment_name (kdl_tree rs)\<rparr>"
      by (simp add: TaskAvoidCollisionsSDF_init_def Let_def)
    with p n t show ?thesis by simp
  qed
  from code unresolved loose iff ok show ?thesis by auto
qed

lemma fold_mask_nth:
  "i < length jac \<Longrightarrow>
   fold (\<lambda>i jac. if \<not> w i then jac[i := z] else jac) [0..<n] jac ! i
     = (if i < n \<and> \<not> w i then z else jac ! i) \<and>
   length (fold (\<lambda>i jac. if \<not> w i then jac[i := z] else jac) [0..<n] jac) = length jac"
  by (induction n) (auto simp: nth_list_update)

lemma fold_mask_length:
  "length (fold (\<lambda>i jac. if \<not> w i then jac[i := z] else jac) [0..<n] jac) = length jac"
  by (induction n) auto

lemma mask_columns_length: "length (mask_columns rs jac) = length jac"
  by (simp add: mask_columns_def fold_mask_length)

lemma mask_columns_nth:
  "i < length jac \<Longrightarrow> mask_columns rs jac ! i
     = (if i < getNumJoints rs \<and> \<not> isQNrWritable rs i then Twist_Zero else jac ! i)"
  using fold_mask_nth [of i jac "isQNrWritable rs" Twist_Zero "getNumJoints rs"]
  by (simp add: mask_columns_def)

lemma RefPoint_Zero: "RefPoint Twist_Zero v = Twist_Zero"
  by (cases v) (simp add: RefPoint_def Twist_Zero_def Twist_vel_def Twist_rot_def
      vec_add_def vec_cross_def)

lemma forwardKinematics_Return:
  assumes "forwardKinematics this kin_q rs = Return c kq"
  shows "(c = - 2 \<or> c = 0) \<and>
         (c = 0 \<longrightarrow> length (ee_J kq) = length (ee_J kin_q) \<and>
            (\<forall>i < length (ee_J kin_q). i < getNumJoints rs \<longrightarrow> \<not> isQNrWritable rs i \<longrightarrow>
               ee_J kq ! i = Twist_Zero))"
  using assms
  by (auto simp: forwardKinematics_def mask_columns_length mask_columns_nth
      split: option.splits)

lemma kin_q_at_Return:
  assumes "kin_q_at this fr coord n rs = Return c kql"
  shows "(c = - 2 \<and> kql = []) \<or>
         (c = 0 \<and> (\<exists>kq. kql = [kq] \<and> length (ee_J kq) = n \<and>
            (\<forall>i < n. i < getNumJoints rs \<longrightarrow> \<not> isQNrWritable rs i \<longrightarrow>
               ee_J kq ! i = Twist_Zero)))"
proof (cases "forwardKinematics this
    \<lparr>kq_frame_id = fr, ee_J = replicate n Twist_Zero, ee_frame = Frame_Identity,
     ee_p = (0, 0, 0)\<rparr> rs")
  case (Return c0 kq0)
  from forwardKinematics_Return [OF Return] assms Return show ?thesis
    by (auto simp: kin_q_at_def Let_def changeRefPoint_def RefPoint_Zero)
next
  case Abort
  with assms show ?thesis by (simp add: kin_q_at_def Let_def)
next
  case Throw
  with assms show ?thesis by (simp add: kin_q_at_def Let_def)
qed

lemma primitiveForwardKinematics_Return:
  assumes "primitiveForwardKinematics this p rs = Return c kql"
  shows "(c = - 2 \<and> kql = []) \<or>
         (c = 0 \<and> (\<exists>kq. kql = [kq] \<and> length (ee_J kq) = getNumJoints rs \<and>
            (\<forall>i < getNumJoints rs. \<not> isQNrWritable rs i \<longrightarrow> ee_J kq ! i = Twist_Zero)))"
proof (cases p)
  case (PointPtr point)
  with assms kin_q_at_Return [of this "frame_id point" "getPointKDL point" "getNumJoints rs" rs c kql]
  show ?thesis by auto
next
  case (SpherePtr sphere)
  with assms kin_q_at_Return [of this "frame_id sphere"
      "(sphere_getX sphere, sphere_getY sphere, sphere_getZ sphere)" "getNumJoints rs" rs c kql]
  show ?thesis by (auto simp: getNumJoints_def)
next
  case (OtherPtr ty pr)
  with assms show ?thesis by auto
qed

lemma update_primitives_step:
  assumes "primitiveForwardKinematics this p rs = Return 0 [kq]"
    and "obstacleGradientBulk cc [ee_p kq] (root_frame_id this) = Some [g]"
  shows "update_primitives cc rs (p # rest) this =
     (if isValid cc g \<and> length (ee_J kq) \<noteq> mat_cols (def_J this) then Abort
      else update_primitives cc rs rest (appended cc p kq g this))"
  using assms
  by (simp add: appendTaskJacobian_def appendTaskFunction_def appended_def)

lemma update_primitives_step_inv:
  assumes "update_primitives cc rs (p # rest) this = Return 0 this'"
  shows "\<exists>kq g. primitiveForwardKinematics this p rs = Return 0 [kq] \<and>
           obstacleGradientBulk cc [ee_p kq] (root_frame_id this) = Some [g] \<and>
           update_primitives cc rs rest (appended cc p kq g this) = Return 0 this'"
proof (cases "primitiveForwardKinematics this p rs")
  case (Return c kql)
  from primitiveForwardKinematics_Return [OF Return] assms Return
  obtain kq where c: "c = 0" and kql: "kql = [kq]"
    by auto
  show ?thesis
  proof (cases "obstacleGradientBulk cc [ee_p kq] (root_frame_id this)")
    case None
    with assms Return c kql show ?thesis by simp
  next
    case (Some gradients)
    with assms Return c kql obtain g where g: "gradients = [g]"
      by (cases gradients; cases "tl gradients") (auto split: if_splits)
    have fk: "primitiveForwardKinematics this p rs = Return 0 [kq]"
      using Return c kql by simp
    have gr: "obstacleGradientBulk cc [ee_p kq] (root_frame_id this) = Some [g]"
      using Some g by simp
    have "update_primitives cc rs rest (appended cc p kq g this) = Return 0 this'"
      using update_primitives_step [OF fk gr, of rest] assms by (simp split: if_splits)
    with fk gr show ?thesis by blast
  qed
next
  case Abort
  with assms show ?thesis by simp
next
  case Throw
  with assms show ?thesis by simp
qed

lemma forwardKinematics_appended:
  "forwardKinematics (appended cc p kq g this) kin_q rs = forwardKinematics this kin_q rs"
  by (simp add: forwardKinematics_def appended_def split: option.splits)

lemma pfk_appended [simp]:
  "primitiveForwardKinematics (appended cc p kq g this) p' rs
     = primitiveForwardKinematics this p' rs"
  by (cases p') (simp_all add: kin_q_at_def forwardKinematics_appended)

lemma appended_fields [simp]:
  "root_frame_id (appended cc p kq g this) = root_frame_id this"
  "task_types (appended cc p kq g this) = task_types this"
  "primitives (appended cc p kq g this) = primitives this"
  "mat_cols (def_J (appended cc p kq g this)) = mat_cols (def_J this)"
  "def_e (appended cc p kq g this) = def_e this @ [function_value cc p g]"
  "mat_rows (def_J (appended cc p kq g this)) = mat_rows (def_J this) @
     [if \<not> isValid cc g then replicate (mat_cols (def_J this)) 0 else jacobian_row g kq]"
  by (simp_all add: appended_def append_row_def)

text \<open>Successful update: every row of the Jacobian has a property that the rows before
  and each appended row have.\<close>

lemma update_primitives_rows:
  assumes "update_primitives cc rs ps this = Return 0 this'"
    and "mat_cols (def_J this) = getNumJoints rs"
    and "\<forall>row \<in> set (mat_rows (def_J this)). length row = getNumJoints rs \<and> row ! i = 0"
    and "i < getNumJoints rs" and "\<not> isQNrWritable rs i"
  shows "\<forall>row \<in> set (mat_rows (def_J this')). length row = getNumJoints rs \<and> row ! i = 0"
  using assms
proof (induction ps arbitrary: this)
  case Nil
  then show ?case by simp
next
  case (Cons p ps)
  from update_primitives_step_inv [OF Cons.prems(1)] obtain kq g where
    fk: "primitiveForwardKinematics this p rs = Return 0 [kq]" and
    rest: "update_primitives cc rs ps (appended cc p kq g this) = Return 0 this'"
    by blast
  from primitiveForwardKinematics_Return [OF fk] Cons.prems(4,5)
  have len: "length (ee_J kq) = getNumJoints rs" and zero: "ee_J kq ! i = Twist_Zero"
    by auto
  have row: "length (jacobian_row g kq) = getNumJoints rs \<and> jacobian_row g kq ! i = 0"
    using len zero Cons.prems(4)
    by (simp add: jacobian_row_def Twist_Zero_def Twist_vel_def vec_dot_def split: prod.splits)
  show ?case
  proof (rule Cons.IH [OF rest])
    show "mat_cols (def_J (appended cc p kq g this)) = getNumJoints rs"
      using Cons.prems(2) by simp
    show "\<forall>row\<in>set (mat_rows (def_J (appended cc p kq g this))).
            length row = getNumJoints rs \<and> row ! i = 0"
      using Cons.prems(2,3,4) row by auto
  qed (use Cons.prems in auto)
qed

lemma update_primitives_total:
  assumes "\<forall>p \<in> set ps. \<exists>kq g. primitiveForwardKinematics this p rs = Return 0 [kq] \<and>
             obstacleGradientBulk cc [ee_p kq] (root_frame_id this) = Some [g]"
    and "mat_cols (def_J this) = getNumJoints rs"
  shows "\<exists>this'. update_primitives cc rs ps this = Return 0 this'"
  using assms
proof (induction ps arbitrary: this)
  case Nil
  then show ?case by simp
next
  case (Cons p ps)
  from Cons.prems(1) obtain kq g where
    fk: "primitiveForwardKinematics this p rs = Return 0 [kq]" and
    gr: "obstacleGradientBulk cc [ee_p kq] (root_frame_id this) = Some [g]"
    by auto
  from primitiveForwardKinematics_Return [OF fk] Cons.prems(2)
  have len: "length (ee_J kq) = mat_cols (def_J this)" by auto
  have "\<exists>this'. update_primitives cc rs ps (appended cc p kq g this) = Return 0 this'"
  proof (rule Cons.IH)
    show "\<forall>p'\<in>set ps. \<exists>kq' g'.
            primitiveForwardKinematics (appended cc p kq g this) p' rs = Return 0 [kq'] \<and>
            obstacleGradientBulk cc [ee_p kq'] (root_frame_id (appended cc p kq g this))
              = Some [g']"
      using Cons.prems(1) by simp
    show "mat_cols (def_J (appended cc p kq g this)) = getNumJoints rs"
      using Cons.prems(2) by simp
  qed
  with len show ?case
    using update_primitives_step [OF fk gr, of ps]
    by (simp del: update_primitives.simps)
qed

lemma update_primitives_entries:
  assumes "update_primitives cc rs ps this = Return 0 this'"
  shows "task_types this' = task_types this \<and> primitives this' = primitives this \<and>
         mat_cols (def_J this') = mat_cols (def_J this) \<and>
         (\<exists>es rows. def_e this' = def_e this @ es \<and>
            mat_rows (def_J this') = mat_rows (def_J this) @ rows \<and>
            length es = length ps \<and> length rows = length ps \<and>
            (\<forall>k < length ps. \<forall>kq g.
               primitiveForwardKinematics this (ps ! k) rs = Return 0 [kq] \<longrightarrow>
               obstacleGradientBulk cc [ee_p kq] (root_frame_id this) = Some [g] \<longrightarrow>
               es ! k = function_value cc (ps ! k) g \<and>
               rows ! k = (if \<not> isValid cc g then replicate (mat_cols (def_J this)) 0
                           else jacobian_row g kq)))"
  using assms
proof (induction ps arbitrary: this)
  case Nil
  then show ?case by simp
next
  case (Cons p ps)
  from update_primitives_step_inv [OF Cons.prems] obtain kq0 g0 where
    fk: "primitiveForwardKinematics this p rs = Return 0 [kq0]" and
    gr: "obstacleGradientBulk cc [ee_p kq0] (root_frame_id this) = Some [g0]" and
    rest: "update_primitives cc rs ps (appended cc p kq0 g0 this) = Return 0 this'"
    by blast
  let ?row0 = "if \<not> isValid cc g0 then replicate (mat_cols (def_J this)) 0
               else jacobian_row g0 kq0"
  from Cons.IH [OF rest] obtain es rows where
    same: "task_types this' = task_types this" "primitives this' = primitives this"
      "mat_cols (def_J this') = mat_cols (def_J this)" and
    e: "def_e this' = (def_e this @ [function_value cc p g0]) @ es" and
    r: "mat_rows (def_J this') = (mat_rows (def_J this) @ [?row0]) @ rows" and
    len: "length es = length ps" "length rows = length ps" and
    ent: "\<forall>k < length ps. \<forall>kq g.
               primitiveForwardKinematics this (ps ! k) rs = Return 0 [kq] \<longrightarrow>
               obstacleGradientBulk cc [ee_p kq] (root_frame_id this) = Some [g] \<longrightarrow>
               es ! k = function_value cc (ps ! k) g \<and>
               rows ! k = (if \<not> isValid cc g then replicate (mat_cols (def_J this)) 0
                           else jacobian_row g kq)"
    by auto
  have ent': "\<forall>k < length (p # ps). \<forall>kq g.
               primitiveForwardKinematics this ((p # ps) ! k) rs = Return 0 [kq] \<longrightarrow>
               obstacleGradientBulk cc [ee_p kq] (root_frame_id this) = Some [g] \<longrightarrow>
               (function_value cc p g0 # es) ! k = function_value cc ((p # ps) ! k) g \<and>
               (?row0 # rows) ! k = (if \<not> isValid cc g then replicate (mat_cols (def_J this)) 0
                           else jacobian_row g kq)"
  proof (intro allI impI)
    fix k kq g
    assume k: "k < length (p # ps)"
      and fk': "primitiveForwardKinematics this ((p # ps) ! k) rs = Return 0 [kq]"
      and gr': "obstacleGradientBulk cc [ee_p kq] (root_frame_id this) = Some [g]"
    show "(function_value cc p g0 # es) ! k = function_value cc ((p # ps) ! k) g \<and>
          (?row0 # rows) ! k = (if \<not> isValid cc g then replicate (mat_cols (def_J this)) 0
                                else jacobian_row g kq)"
    proof (cases k)
      case 0
      with fk fk' gr gr' show ?thesis by simp
    next
      case (Suc k')
      with k have k': "k' < length ps" by simp
      have a: "primitiveForwardKinematics this (ps ! k') rs = Return 0 [kq]"
        using fk' Suc by simp
      from ent [rule_format, OF k' a gr'] Suc show ?thesis by simp
    qed
  qed
  show ?case
    apply (intro conjI same)
    apply (rule exI [of _ "function_value cc p g0 # es"])
    apply (rule exI [of _ "?row0 # rows"])
    using e r len ent' by simp
qed

lemma sdf_init_success:
  assumes "TaskAvoidCollisionsSDF_init gpm parameters rs this = (0, this')"
  shows "2 \<le> length parameters \<and>
         n_dimensions this' = length parameters - 1 \<and>
         map Some (primitives this') = map (resolve gpm) (tl parameters) \<and>
         task_types this' = replicate (length parameters - 1) 1"
proof -
  from assms have len: "2 \<le> length parameters"
    by (auto simp: TaskAvoidCollisionsSDF_init_def Let_def split: if_splits)
  obtain c this1 where l: "init_primitives gpm rs (tl parameters) (reset this) = (c, this1)"
    by (cases "init_primitives gpm rs (tl parameters) (reset this)")
  with assms len have c: "c = 0"
    by (auto simp: TaskAvoidCollisionsSDF_init_def Let_def split: if_splits)
  from init_primitives_ok [OF l [unfolded c]]
  have p: "map Some (primitives this1) = map (resolve gpm) (tl parameters)"
    and n: "n_dimensions this1 = length parameters - 1"
    and t: "task_types this1 = []"
    by (simp_all add: reset_def)
  from len l c assms have "this' = this1\<lparr>performance_measures := [],
                         task_types := replicate (n_dimensions this1) 1 @ task_types this1,
                         fk_solver_pos := Some (JntToCart (kdl_tree rs)),
                         fk_solver_jac := Some (JntToJac (kdl_tree rs)),
                         root_frame_id := root_segment_name (kdl_tree rs)\<rparr>"
    by (simp add: TaskAvoidCollisionsSDF_init_def Let_def)
  with p n t len show ?thesis by simp
qed

lemma forwardKinematics_cleared:
  "forwardKinematics (this\<lparr>def_e := es, def_J := m\<rparr>) kin_q rs = forwardKinematics this kin_q rs"
  by (simp add: forwardKinematics_def split: option.splits)

lemma pfk_cleared:
  "primitiveForwardKinematics (this\<lparr>def_e := es, def_J := m\<rparr>) p rs
     = primitiveForwardKinematics this p rs"
  by (cases p) (simp_all add: kin_q_at_def forwardKinematics_cleared)

lemma sdf_update_total:
  assumes "\<forall>p \<in> set (primitives this). \<exists>kq g.
             primitiveForwardKinematics this p rs = Return 0 [kq] \<and>
             obstacleGradientBulk cc [ee_p kq] (root_frame_id this) = Some [g]"
  shows "\<exists>this'. TaskAvoidCollisionsSDF_update cc rs this = Return 0 this'"
  unfolding TaskAvoidCollisionsSDF_update_def
  using assms by (intro update_primitives_total) (simp_all add: pfk_cleared)

lemma sdf_update_entries:
  assumes "TaskAvoidCollisionsSDF_update cc rs this = Return 0 this'"
  shows "task_types this' = task_types this \<and> primitives this' = primitives this \<and>
         mat_cols (def_J this') = getNumJoints rs \<and>
         length (def_e this') = length (primitives this) \<and>
         length (mat_rows (def_J this')) = length (primitives this) \<and>
         (\<forall>k < length (primitives this). \<forall>kq g.
            primitiveForwardKinematics this (primitives this ! k) rs = Return 0 [kq] \<longrightarrow>
            obstacleGradientBulk cc [ee_p kq] (root_frame_id this) = Some [g] \<longrightarrow>
            def_e this' ! k = function_value cc (primitives this ! k) g \<and>
            mat_rows (def_J this') ! k =
              (if \<not> isValid cc g then replicate (getNumJoints rs) 0 else jacobian_row g kq))"
  using update_primitives_entries [OF assms [unfolded TaskAvoidCollisionsSDF_update_def]]
  by (auto simp: pfk_cleared)

text \<open>
  Claim C2. In an update in which the forward kinematics of every monitored primitive
  succeeds and the collision checker answers each query with one gradient, the update
  returns \<open>0\<close>, and for every primitive whose gradient is judged invalid the entry of the
  task function is \<open>0\<close> and the row of the task Jacobian is a row of zeros.
\<close>

theorem invalid_gradient_zero_row:
  assumes "\<forall>p \<in> set (primitives this). \<exists>kq g.
             primitiveForwardKinematics this p rs = Return 0 [kq] \<and>
             obstacleGradientBulk cc [ee_p kq] (root_frame_id this) = Some [g]"
  shows "\<exists>this'. TaskAvoidCollisionsSDF_update cc rs this = Return 0 this' \<and>
           (\<forall>k < length (primitives this). \<forall>kq g.
              primitiveForwardKinematics this (primitives this ! k) rs = Return 0 [kq] \<longrightarrow>
              obstacleGradientBulk cc [ee_p kq] (root_frame_id this) = Some [g] \<longrightarrow>
              \<not> isValid cc g \<longrightarrow>
              def_e this' ! k = 0 \<and>
              mat_rows (def_J this') ! k = replicate (getNumJoints rs) 0)"
proof -
  from sdf_update_total [OF assms] obtain this' where
    u: "TaskAvoidCollisionsSDF_update cc rs this = Return 0 this'" by blast
  from sdf_update_entries [OF u] have
    "\<forall>k < length (primitives this). \<forall>kq g.
       primitiveForwardKinematics this (primitives this ! k) rs = Return 0 [kq] \<longrightarrow>
       obstacleGradientBulk cc [ee_p kq] (root_frame_id this) = Some [g] \<longrightarrow>
       \<not> isValid cc g \<longrightarrow>
       def_e this' ! k = 0 \<and> mat_rows (def_J this') ! k = replicate (getNumJoints rs) 0"
    by (simp add: function_value_def)
  with u show ?thesis by blast
qed

text \<open>
  Claim C3. After a successful \<^verbatim>\<open>init\<close>, an update as above returns \<open>0\<close> with one
  entry of the task function and one row of the task Jacobian for each listed primitive;
  every task type is \<open>GREATER_OR_EQUAL\<close>; and where the gradient is valid, the entry is the
  norm of the gradient less the safety distance for a point, less the safety distance and
  the radius for a sphere, and the row is the negated normalized gradient times the
  velocity Jacobian.
\<close>

theorem valid_gradient_rows:
  assumes "TaskAvoidCollisionsSDF_init gpm parameters rs0 this0 = (0, this)"
    and "\<forall>p \<in> set (primitives this). \<exists>kq g.
             primitiveForwardKinematics this p rs = Return 0 [kq] \<and>
             obstacleGradientBulk cc [ee_p kq] (root_frame_id this) = Some [g]"
  shows "\<exists>this'. TaskAvoidCollisionsSDF_update cc rs this = Return 0 this' \<and>
           length (primitives this) = length parameters - 1 \<and>
           length (def_e this') = length (primitives this) \<and>
           length (mat_rows (def_J this')) = length (primitives this) \<and>
           task_types this' = replicate (length (primitives this)) GREATER_OR_EQUAL \<and>
           (\<forall>k < length (primitives this). \<forall>kq g.
              primitiveForwardKinematics this (primitives this ! k) rs = Return 0 [kq] \<longrightarrow>
              obstacleGradientBulk cc [ee_p kq] (root_frame_id this) = Some [g] \<longrightarrow>
              isValid cc g \<longrightarrow>
              (\<forall>point. primitives this ! k = PointPtr point \<longrightarrow>
                 def_e this' ! k = norm3 g - SAFETY_DISTANCE) \<and>
              (\<forall>sphere. primitives this ! k = SpherePtr sphere \<longrightarrow>
                 def_e this' ! k = norm3 g - SAFETY_DISTANCE - getRadius sphere) \<and>
              mat_rows (def_J this') ! k =
                map (\<lambda>t. vec_dot (vec_neg (normalize3 g)) (Twist_vel t)) (ee_J kq))"
proof -
  from sdf_update_total [OF assms(2)] obtain this' where
    u: "TaskAvoidCollisionsSDF_update cc rs this = Return 0 this'" by blast
  from sdf_init_success [OF assms(1)] have
    n: "length (primitives this) = length parameters - 1" and
    t: "task_types this = replicate (length parameters - 1) 1"
    using length_map [of Some "primitives this"] by auto
  note ent = sdf_update_entries [OF u]
  have rows: "\<forall>k < length (primitives this). \<forall>kq g.
              primitiveForwardKinematics this (primitives this ! k) rs = Return 0 [kq] \<longrightarrow>
              obstacleGradientBulk cc [ee_p kq] (root_frame_id this) = Some [g] \<longrightarrow>
              isValid cc g \<longrightarrow>
              (\<forall>point. primitives this ! k = PointPtr point \<longrightarrow>
                 def_e this' ! k = norm3 g - SAFETY_DISTANCE) \<and>
              (\<forall>sphere. primitives this ! k = SpherePtr sphere \<longrightarrow>
                 def_e this' ! k = norm3 g - SAFETY_DISTANCE - getRadius sphere) \<and>
              mat_rows (def_J this') ! k =
                map (\<lambda>t. vec_dot (vec_neg (normalize3 g)) (Twist_vel t)) (ee_J kq)"
  proof (intro allI impI)
    fix k kq g
    assume k: "k < length (primitives this)"
      and fk: "primitiveForwardKinematics this (primitives this ! k) rs = Return 0 [kq]"
      and gr: "obstacleGradientBulk cc [ee_p kq] (root_frame_id this) = Some [g]"
      and valid: "isValid cc g"
    from ent k fk gr have
      e: "def_e this' ! k = function_value cc (primitives this ! k) g" and
      r: "mat_rows (def_J this') ! k =
            (if \<not> isValid cc g then replicate (getNumJoints rs) 0 else jacobian_row g kq)"
      by blast+
    from e r valid show
      "(\<forall>point. primitives this ! k = PointPtr point \<longrightarrow>
                 def_e this' ! k = norm3 g - SAFETY_DISTANCE) \<and>
              (\<forall>sphere. primitives this ! k = SpherePtr sphere \<longrightarrow>
                 def_e this' ! k = norm3 g - SAFETY_DISTANCE - getRadius sphere) \<and>
              mat_rows (def_J this') ! k =
                map (\<lambda>t. vec_dot (vec_neg (normalize3 g)) (Twist_vel t)) (ee_J kq)"
      by (simp add: function_value_def jacobian_row_def Let_def)
  qed
  have tt: "task_types this' = replicate (length (primitives this)) GREATER_OR_EQUAL"
    using ent n t by (simp add: GREATER_OR_EQUAL_def)
  from ent have le: "length (def_e this') = length (primitives this)"
    and lr: "length (mat_rows (def_J this')) = length (primitives this)"
    by blast+
  from u n tt le lr rows show ?thesis by blast
qed

text \<open>
  Claim C4. For a joint \<open>i\<close> that is not writable, column \<open>i\<close> of the Jacobian that
  \<^verbatim>\<open>forwardKinematics\<close> returns is zero, and after a successful update of the SDF
  avoidance task every row of the task Jacobian has one entry per joint and a zero in
  column \<open>i\<close>.
\<close>

theorem nonwritable_columns_zero:
  assumes "i < getNumJoints rs" and "\<not> isQNrWritable rs i"
  shows "(\<forall>kq. forwardKinematics this kin_q rs = Return 0 kq \<longrightarrow> i < length (ee_J kin_q) \<longrightarrow>
            ee_J kq ! i = Twist_Zero) \<and>
         (\<forall>this'. TaskAvoidCollisionsSDF_update cc rs this = Return 0 this' \<longrightarrow>
            (\<forall>row \<in> set (mat_rows (def_J this')).
               length row = getNumJoints rs \<and> row ! i = 0))"
proof (intro conjI allI impI)
  fix kq
  assume "forwardKinematics this kin_q rs = Return 0 kq" and "i < length (ee_J kin_q)"
  with forwardKinematics_Return [of this kin_q rs 0 kq] assms
  show "ee_J kq ! i = Twist_Zero" by simp
next
  fix this'
  assume u: "TaskAvoidCollisionsSDF_update cc rs this = Return 0 this'"
  show "\<forall>row \<in> set (mat_rows (def_J this')). length row = getNumJoints rs \<and> row ! i = 0"
    by (rule update_primitives_rows [OF u [unfolded TaskAvoidCollisionsSDF_update_def]])
       (use assms in simp_all)
qed

lemma sample_init:
  "TaskAvoidCollisionsSDF_init sample_gpm [''TDefAvoidCollisionsSDF'', ''p1'', ''s1'']
            sample_rs new_TaskAvoidCollisionsSDF = (0, new_TaskAvoidCollisionsSDF
     \<lparr>task_types := [1, 1], n_dimensions := 2, performance_measures := [],
      primitives := [PointPtr sample_point, SpherePtr sample_sphere],
      root_frame_id := ''base'',
      fk_solver_pos := Some (JntToCart sample_tree),
      fk_solver_jac := Some (JntToJac sample_tree)\<rparr>)"
  by (simp add: TaskAvoidCollisionsSDF_init_def reset_def sample_gpm_def
      getGeometricPrimitive_Point_def getGeometricPrimitive_Sphere_def
      kdl_getQNrFromLinkName_def sample_rs_def sample_tree_def sample_point_def
      sample_sphere_def new_TaskAvoidCollisionsSDF_def numeral_2_eq_2)

lemma sqrt25: "sqrt 25 = (5::real)"
  by (rule real_sqrt_unique) simp_all

lemma sample_sdf_eq:
  "sample_sdf = new_TaskAvoidCollisionsSDF
     \<lparr>task_types := [1, 1], n_dimensions := 2, performance_measures := [],
      primitives := [PointPtr sample_point, SpherePtr sample_sphere],
      root_frame_id := ''base'',
      fk_solver_pos := Some (JntToCart sample_tree),
      fk_solver_jac := Some (JntToJac sample_tree)\<rparr>"
  by (simp add: sample_sdf_def sample_init)

lemma sample_mask:
  "mask_columns sample_rs [c0, c1] = [c0, Twist_Zero]"
  by (simp add: mask_columns_def getNumJoints_def isQNrWritable_def sample_rs_def upt_rec)

lemma sample_forwardKinematics:
  "forwardKinematics sample_sdf
     \<lparr>kq_frame_id = ''ee'', ee_J = [a, b], ee_frame = fr, ee_p = pt\<rparr> sample_rs =
   Return 0 \<lparr>kq_frame_id = ''ee'', ee_J = [((1, 2, 2), (0, 0, 1)), Twist_Zero],
      ee_frame = \<lparr>frame_p = (1, 0, 0), frame_M = ((1, 0, 0), (0, 1, 0), (0, 0, 1))\<rparr>,
      ee_p = pt\<rparr>"
  by (simp add: forwardKinematics_def sample_sdf_eq sample_tree_def sample_mask upt_rec
       new_TaskAvoidCollisionsSDF_def)

lemma sample_facts:
  "frame_id sample_point = ''ee''" "getPointKDL sample_point = (7, 8, 9)"
  "frame_id sample_sphere = ''ee''" "sphere_getX sample_sphere = 0"
  "sphere_getY sample_sphere = 0" "sphere_getZ sample_sphere = 0"
  "getNumJoints sample_rs = Suc (Suc 0)" "length (kdl_jnt_array_vel_q sample_rs) = Suc (Suc 0)"
  by (simp_all add: sample_point_def sample_sphere_def sample_rs_def getPointKDL_def
      sphere_getX_def sphere_getY_def sphere_getZ_def getNumJoints_def)

lemma sample_fk_point:
  "primitiveForwardKinematics sample_sdf (PointPtr sample_point) sample_rs
     = Return 0 [sample_kq_point]"
  by (simp add: kin_q_at_def sample_facts sample_forwardKinematics
      sample_kq_point_def changeRefPoint_def RefPoint_def Twist_Zero_def Twist_vel_def
      Twist_rot_def vec_add_def vec_cross_def mat_vec_def vec_dot_def)

lemma sample_fk_sphere:
  "primitiveForwardKinematics sample_sdf (SpherePtr sample_sphere) sample_rs
     = Return 0 [sample_kq_sphere]"
  by (simp add: kin_q_at_def sample_facts sample_forwardKinematics
      sample_kq_sphere_def changeRefPoint_def RefPoint_def Twist_Zero_def Twist_vel_def
      Twist_rot_def vec_add_def vec_cross_def mat_vec_def vec_dot_def)

lemma sample_env:
  "\<forall>p \<in> set (primitives sample_sdf). \<exists>kq g.
      primitiveForwardKinematics sample_sdf p sample_rs = Return 0 [kq] \<and>
      obstacleGradientBulk sample_cc [ee_p kq] (root_frame_id sample_sdf) = Some [g]"
  "\<forall>p \<in> set (primitives sample_sdf). \<exists>kq g.
      primitiveForwardKinematics sample_sdf p sample_rs = Return 0 [kq] \<and>
      obstacleGradientBulk blind_cc [ee_p kq] (root_frame_id sample_sdf) = Some [g]"
  using sample_fk_point sample_fk_sphere
  by (simp_all add: sample_sdf_eq sample_cc_def blind_cc_def)

theorem invalid_gradient_zero_row_witness:
  "\<exists>this'. TaskAvoidCollisionsSDF_update blind_cc sample_rs sample_sdf = Return 0 this' \<and>
      def_e this' ! 0 = 0 \<and> mat_rows (def_J this') ! 0 = [0, 0] \<and>
      def_e this' ! 1 = 0 \<and> mat_rows (def_J this') ! 1 = [0, 0]"
proof -
  from invalid_gradient_zero_row [OF sample_env(2)] obtain this' where
    u: "TaskAvoidCollisionsSDF_update blind_cc sample_rs sample_sdf = Return 0 this'" and
    z: "\<forall>k < length (primitives sample_sdf). \<forall>kq g.
          primitiveForwardKinematics sample_sdf (primitives sample_sdf ! k) sample_rs
            = Return 0 [kq] \<longrightarrow>
          obstacleGradientBulk blind_cc [ee_p kq] (root_frame_id sample_sdf) = Some [g] \<longrightarrow>
          \<not> isValid blind_cc g \<longrightarrow>
          def_e this' ! k = 0 \<and>
          mat_rows (def_J this') ! k = replicate (getNumJoints sample_rs) 0"
    by blast
  have p: "primitives sample_sdf = [PointPtr sample_point, SpherePtr sample_sphere]"
    by (simp add: sample_sdf_eq)
  have g: "obstacleGradientBulk blind_cc [pt] fr = Some [(0, 0, 0)]" for pt fr
    by (simp add: blind_cc_def)
  have v: "\<not> isValid blind_cc (0, 0, 0)" by (simp add: blind_cc_def)
  from z [rule_format, of 0 sample_kq_point "(0, 0, 0)"] sample_fk_point g v
  have r0: "def_e this' ! 0 = 0 \<and> mat_rows (def_J this') ! 0 = [0, 0]"
    by (simp add: p sample_facts)
  from z [rule_format, of 1 sample_kq_sphere "(0, 0, 0)"] sample_fk_sphere g v
  have r1: "def_e this' ! 1 = 0 \<and> mat_rows (def_J this') ! 1 = [0, 0]"
    by (simp add: p sample_facts)
  from u r0 r1 show ?thesis by blast
qed

lemma norm_345: "norm3 (3, 4, 0) = 5"
  by (simp add: norm3_def squaredNorm_def vec_dot_def sqrt25)

lemma normalize_345: "normalize3 (3, 4, 0) = (3 / 5, 4 / 5, 0)"
  by (simp add: normalize3_def squaredNorm_def vec_dot_def sqrt25)

theorem valid_gradient_rows_witness:
  "\<exists>this'. TaskAvoidCollisionsSDF_update sample_cc sample_rs sample_sdf = Return 0 this' \<and>
      length (def_e this') = 2 \<and> length (mat_rows (def_J this')) = 2 \<and>
      task_types this' = [GREATER_OR_EQUAL, GREATER_OR_EQUAL] \<and>
      def_e this' ! 0 = 999 / 200 \<and> mat_rows (def_J this') ! 0 = [- 3, 0] \<and>
      def_e this' ! 1 = 979 / 200 \<and> mat_rows (def_J this') ! 1 = [- 11 / 5, 0]"
proof -
  have i: "TaskAvoidCollisionsSDF_init sample_gpm [''TDefAvoidCollisionsSDF'', ''p1'', ''s1'']
            sample_rs new_TaskAvoidCollisionsSDF = (0, sample_sdf)"
    by (simp add: sample_init sample_sdf_eq)
  from valid_gradient_rows [OF i sample_env(1)] obtain this' where
    u: "TaskAvoidCollisionsSDF_update sample_cc sample_rs sample_sdf = Return 0 this'" and
    l: "length (def_e this') = length (primitives sample_sdf)"
       "length (mat_rows (def_J this')) = length (primitives sample_sdf)"
       "task_types this' = replicate (length (primitives sample_sdf)) GREATER_OR_EQUAL" and
    z: "\<forall>k < length (primitives sample_sdf). \<forall>kq g.
          primitiveForwardKinematics sample_sdf (primitives sample_sdf ! k) sample_rs
            = Return 0 [kq] \<longrightarrow>
          obstacleGradientBulk sample_cc [ee_p kq] (root_frame_id sample_sdf) = Some [g] \<longrightarrow>
          isValid sample_cc g \<longrightarrow>
          (\<forall>point. primitives sample_sdf ! k = PointPtr point \<longrightarrow>
             def_e this' ! k = norm3 g - SAFETY_DISTANCE) \<and>
          (\<forall>sphere. primitives sample_sdf ! k = SpherePtr sphere \<longrightarrow>
             def_e this' ! k = norm3 g - SAFETY_DISTANCE - getRadius sphere) \<and>
          mat_rows (def_J this') ! k =
            map (\<lambda>t. vec_dot (vec_neg (normalize3 g)) (Twist_vel t)) (ee_J kq)"
    by blast
  have p: "primitives sample_sdf = [PointPtr sample_point, SpherePtr sample_sphere]"
    by (simp add: sample_sdf_eq)
  have g: "obstacleGradientBulk sample_cc [pt] fr = Some [(3, 4, 0)]" for pt fr
    by (simp add: sample_cc_def)
  have v: "isValid sample_cc (3, 4, 0)" by (simp add: sample_cc_def)
  from z [rule_format, of 0 sample_kq_point "(3, 4, 0)"] sample_fk_point g v
  have r0: "def_e this' ! 0 = 999 / 200 \<and> mat_rows (def_J this') ! 0 = [- 3, 0]"
    by (simp add: p norm_345 normalize_345 SAFETY_DISTANCE_def sample_kq_point_def
        vec_dot_def vec_neg_def Twist_vel_def)
  from z [rule_format, of 1 sample_kq_sphere "(3, 4, 0)"] sample_fk_sphere g v
  have r1: "def_e this' ! 1 = 979 / 200 \<and> mat_rows (def_J this') ! 1 = [- 11 / 5, 0]"
    by (simp add: p norm_345 normalize_345 SAFETY_DISTANCE_def sample_kq_sphere_def
        vec_dot_def vec_neg_def Twist_vel_def getRadius_def sample_sphere_def)
  from l have l': "length (def_e this') = 2" "length (mat_rows (def_J this')) = 2"
    "task_types this' = [GREATER_OR_EQUAL, GREATER_OR_EQUAL]"
    by (simp_all add: p numeral_2_eq_2)
  from u l' r0 r1 show ?thesis by blast
qed

theorem nonwritable_columns_zero_witness:
  "(\<exists>kq. forwardKinematics sample_sdf
            \<lparr>kq_frame_id = ''ee'', ee_J = [Twist_Zero, Twist_Zero],
             ee_frame = Frame_Identity, ee_p = (0, 0, 0)\<rparr> sample_rs = Return 0 kq \<and>
          ee_J kq ! 1 = Twist_Zero) \<and>
   (\<exists>this'. TaskAvoidCollisionsSDF_update sample_cc sample_rs sample_sdf = Return 0 this' \<and>
      mat_rows (def_J this') \<noteq> [] \<and>
      list_all (\<lambda>row. length row = 2 \<and> row ! 1 = 0) (mat_rows (def_J this')))"
proof -
  have i: "1 < getNumJoints sample_rs"
    by (simp add: sample_facts)
  have w: "\<not> isQNrWritable sample_rs 1"
    by (simp add: isQNrWritable_def sample_rs_def)
  note c4 = nonwritable_columns_zero [OF i w, of sample_sdf
      "\<lparr>kq_frame_id = ''ee'', ee_J = [Twist_Zero, Twist_Zero],
        ee_frame = Frame_Identity, ee_p = (0, 0, 0)\<rparr>" sample_cc]
  have fk: "forwardKinematics sample_sdf
            \<lparr>kq_frame_id = ''ee'', ee_J = [Twist_Zero, Twist_Zero],
             ee_frame = Frame_Identity, ee_p = (0, 0, 0)\<rparr> sample_rs =
       Return 0 \<lparr>kq_frame_id = ''ee'', ee_J = [((1, 2, 2), (0, 0, 1)), Twist_Zero],
         ee_frame = \<lparr>frame_p = (1, 0, 0), frame_M = ((1, 0, 0), (0, 1, 0), (0, 0, 1))\<rparr>,
         ee_p = (0, 0, 0)\<rparr>"
    by (rule sample_forwardKinematics)
  from c4 fk have first: "\<exists>kq. forwardKinematics sample_sdf
            \<lparr>kq_frame_id = ''ee'', ee_J = [Twist_Zero, Twist_Zero],
             ee_frame = Frame_Identity, ee_p = (0, 0, 0)\<rparr> sample_rs = Return 0 kq \<and>
          ee_J kq ! 1 = Twist_Zero"
    by simp
  from sdf_update_total [OF sample_env(1)] obtain this' where
    u: "TaskAvoidCollisionsSDF_update sample_cc sample_rs sample_sdf = Return 0 this'"
    by blast
  from sdf_update_entries [OF u] have "length (mat_rows (def_J this')) = 2"
    by (simp add: sample_sdf_eq)
  then have ne: "mat_rows (def_J this') \<noteq> []" by auto
  from c4 u have "\<forall>row \<in> set (mat_rows (def_J this')). length row = 2 \<and> row ! 1 = 0"
    by (simp add: sample_facts)
  then have "list_all (\<lambda>row. length row = 2 \<and> row ! 1 = 0) (mat_rows (def_J this'))"
    by (simp add: list_all_iff)
  with first u ne show ?thesis by blast
qed

lemma sample_resolve:
  "resolve sample_gpm ''p1'' = Some (PointPtr sample_point)"
  "resolve sample_gpm ''s1'' = Some (SpherePtr sample_sphere)"
  "resolve sample_gpm ''loose'' = Some (PointPtr loose_point)"
  "resolve sample_gpm ''nobody'' = None"
  by (simp_all add: resolve_def sample_gpm_def getGeometricPrimitive_Point_def
      getGeometricPrimitive_Sphere_def)

lemma sample_links:
  "is_link (kdl_tree sample_rs) ''ee''" "\<not> is_link (kdl_tree sample_rs) ''table''"
  by (simp_all add: is_link_def sample_rs_def sample_tree_def)

theorem sdf_init_result_witness:
  "fst (TaskAvoidCollisionsSDF_init sample_gpm [''TDefAvoidCollisionsSDF'']
          sample_rs new_TaskAvoidCollisionsSDF) = - 2 \<and>
   fst (TaskAvoidCollisionsSDF_init sample_gpm [''TDefAvoidCollisionsSDF'', ''nobody'']
          sample_rs new_TaskAvoidCollisionsSDF) = - 2 \<and>
   fst (TaskAvoidCollisionsSDF_init sample_gpm [''TDefAvoidCollisionsSDF'', ''loose'']
          sample_rs new_TaskAvoidCollisionsSDF) = - 2 \<and>
   fst (TaskAvoidCollisionsSDF_init sample_gpm [''TDefAvoidCollisionsSDF'', ''p1'', ''s1'']
          sample_rs new_TaskAvoidCollisionsSDF) = 0 \<and>
   n_dimensions (snd (TaskAvoidCollisionsSDF_init sample_gpm
          [''TDefAvoidCollisionsSDF'', ''p1'', ''s1''] sample_rs new_TaskAvoidCollisionsSDF)) = 2 \<and>
   primitives (snd (TaskAvoidCollisionsSDF_init sample_gpm
          [''TDefAvoidCollisionsSDF'', ''p1'', ''s1''] sample_rs new_TaskAvoidCollisionsSDF))
     = [PointPtr sample_point, SpherePtr sample_sphere] \<and>
   length (task_types (snd (TaskAvoidCollisionsSDF_init sample_gpm
          [''TDefAvoidCollisionsSDF'', ''p1'', ''s1''] sample_rs new_TaskAvoidCollisionsSDF))) = 2"
proof -
  have few: "fst (TaskAvoidCollisionsSDF_init sample_gpm [''TDefAvoidCollisionsSDF'']
          sample_rs new_TaskAvoidCollisionsSDF) = - 2"
    using sdf_init_result [of "[''TDefAvoidCollisionsSDF'']" sample_gpm sample_rs
        new_TaskAvoidCollisionsSDF]
    by simp
  have nobody: "fst (TaskAvoidCollisionsSDF_init sample_gpm [''TDefAvoidCollisionsSDF'', ''nobody'']
          sample_rs new_TaskAvoidCollisionsSDF) = - 2"
    using sdf_init_result [of "[''TDefAvoidCollisionsSDF'', ''nobody'']" sample_gpm sample_rs
        new_TaskAvoidCollisionsSDF]
    by (simp add: sample_resolve)
  have loose: "fst (TaskAvoidCollisionsSDF_init sample_gpm [''TDefAvoidCollisionsSDF'', ''loose'']
          sample_rs new_TaskAvoidCollisionsSDF) = - 2"
    using sdf_init_result [of "[''TDefAvoidCollisionsSDF'', ''loose'']" sample_gpm sample_rs
        new_TaskAvoidCollisionsSDF]
    by (simp add: sample_resolve sample_links loose_point_def)
  have att: "attached sample_gpm sample_rs ''p1''" "attached sample_gpm sample_rs ''s1''"
    by (simp_all add: attached_def sample_resolve sample_links sample_facts)
  have ok: "fst (TaskAvoidCollisionsSDF_init sample_gpm [''TDefAvoidCollisionsSDF'', ''p1'', ''s1'']
          sample_rs new_TaskAvoidCollisionsSDF) = 0 \<and>
   n_dimensions (snd (TaskAvoidCollisionsSDF_init sample_gpm
          [''TDefAvoidCollisionsSDF'', ''p1'', ''s1''] sample_rs new_TaskAvoidCollisionsSDF)) = 2 \<and>
   primitives (snd (TaskAvoidCollisionsSDF_init sample_gpm
          [''TDefAvoidCollisionsSDF'', ''p1'', ''s1''] sample_rs new_TaskAvoidCollisionsSDF))
     = [PointPtr sample_point, SpherePtr sample_sphere] \<and>
   length (task_types (snd (TaskAvoidCollisionsSDF_init sample_gpm
          [''TDefAvoidCollisionsSDF'', ''p1'', ''s1''] sample_rs new_TaskAvoidCollisionsSDF))) = 2"
    using sdf_init_result [of "[''TDefAvoidCollisionsSDF'', ''p1'', ''s1'']" sample_gpm sample_rs
        new_TaskAvoidCollisionsSDF] att
    by (auto simp: sample_resolve)
  from few nobody loose ok show ?thesis by blast
qed

section \<open>Results on the task\<close>

lemma projection_class_None:
  "projection_class a b = None \<longleftrightarrow> (a, b) \<notin> set projection_pairs"
  by (simp add: projection_class_def projection_pairs_def)

lemma alignment_class_None:
  "alignment_class a b = None \<longleftrightarrow> (a, b) \<notin> set alignment_pairs"
  by (simp add: alignment_class_def alignment_pairs_def)

lemma construct_pair_result:
  assumes "3 \<le> length def_params"
  shows "(\<exists>t'. construct_pair env class_of def_params t = Return 0 t') \<or>
         construct_pair env class_of def_params t = Return (- 1) t"
    and "construct_pair env class_of def_params t = Return (- 1) t \<longleftrightarrow>
         class_of (def_params ! 1) (def_params ! 2) = None"
  using assms by (auto simp: construct_pair_def vector_at_def split: option.splits)

lemma constructDefinition_result:
  assumes "def_params \<noteq> []"
    and "hd def_params \<in> {''TDefGeomProj'', ''TDefGeomAlign''} \<longrightarrow> 3 \<le> length def_params"
  shows "(definition_accepted def_params \<longrightarrow>
            (\<exists>t'. constructDefinition env def_params t = Return 0 t' \<and> def_ptr t' \<noteq> None \<and>
               dyn_ptr t' = dyn_ptr t)) \<and>
         (\<not> definition_accepted def_params \<longrightarrow>
            constructDefinition env def_params t = Return (- 1) t)"
proof -
  from assms(1) have at0: "vector_at def_params 0 = Some (hd def_params)"
    by (cases def_params) (simp_all add: vector_at_def)
  show ?thesis
  proof (cases "hd def_params = ''TDefGeomProj''")
    case True
    with assms(2) have len: "3 \<le> length def_params" by simp
    from True have c: "constructDefinition env def_params t
        = construct_pair env projection_class def_params t"
      by (simp add: constructDefinition_def at0)
    from True have a: "definition_accepted def_params \<longleftrightarrow>
        projection_class (def_params ! 1) (def_params ! 2) \<noteq> None"
      by (simp add: definition_accepted_def definition_type_names_def projection_class_None)
    from len show ?thesis unfolding c a
      by (auto simp: construct_pair_def vector_at_def split: option.splits)
  next
    case notproj: False
    show ?thesis
    proof (cases "hd def_params = ''TDefGeomAlign''")
      case True
      with assms(2) have len: "3 \<le> length def_params" by simp
      from True have c: "constructDefinition env def_params t
          = construct_pair env alignment_class def_params t"
        by (simp add: constructDefinition_def at0)
      from True have a: "definition_accepted def_params \<longleftrightarrow>
          alignment_class (def_params ! 1) (def_params ! 2) \<noteq> None"
        by (simp add: definition_accepted_def definition_type_names_def alignment_class_None)
      from len show ?thesis unfolding c a
        by (auto simp: construct_pair_def vector_at_def split: option.splits)
    next
      case False
      with notproj show ?thesis
        by (simp add: constructDefinition_def at0 definition_accepted_def
            definition_type_names_def)
    qed
  qed
qed

lemma constructDynamics_result:
  assumes "dyn_params \<noteq> []"
  shows "(dynamics_accepted dyn_params \<longrightarrow>
            (\<exists>t'. constructDynamics env dyn_params t = Return 0 t' \<and> dyn_ptr t' \<noteq> None \<and>
               def_ptr t' = def_ptr t)) \<and>
         (\<not> dynamics_accepted dyn_params \<longrightarrow>
            constructDynamics env dyn_params t = Return (- 1) t)"
proof -
  from assms have at0: "vector_at dyn_params 0 = Some (hd dyn_params)"
    by (cases dyn_params) (simp_all add: vector_at_def)
  show ?thesis
    by (simp add: constructDynamics_def at0 dynamics_accepted_def dynamics_type_names_def)
qed

lemma initialize_both_codes:
  "initialize_both env gpm def_params dyn_params rs t \<noteq> Return (- 3) t' \<and>
   initialize_both env gpm def_params dyn_params rs t \<noteq> Return (- 4) t'"
  by (auto simp: initialize_both_def Let_def split: option.splits outcome.splits)

text \<open>
  Claim C7, as amended. For parameter lists that are not empty (and that hold the two
  primitive types when the first token names a projection or an alignment),
  \<^verbatim>\<open>Task::init\<close> returns \<open>-3\<close> exactly when the first definition token is not a known
  type name or names a projection or alignment for a pair of primitive types that is not
  supported, and it returns \<open>-4\<close> exactly when the definition is accepted and the first
  dynamics token is not a known type name.
\<close>

theorem Task_init_rejects_unknown:
  assumes "def_params \<noteq> []" and "dyn_params \<noteq> []"
    and "hd def_params \<in> {''TDefGeomProj'', ''TDefGeomAlign''} \<longrightarrow> 3 \<le> length def_params"
  shows "((\<exists>t'. Task_init env gpm def_params dyn_params rs t = Return (- 3) t') \<longleftrightarrow>
            \<not> definition_accepted def_params) \<and>
         ((\<exists>t'. Task_init env gpm def_params dyn_params rs t = Return (- 4) t') \<longleftrightarrow>
            definition_accepted def_params \<and> \<not> dynamics_accepted dyn_params)"
proof (cases "definition_accepted def_params")
  case False
  with constructDefinition_result [OF assms(1,3), of env t]
  have "constructDefinition env def_params t = Return (- 1) t" by simp
  with assms(1,2) have "Task_init env gpm def_params dyn_params rs t = Return (- 3) t"
    by (simp add: Task_init_def)
  with False show ?thesis by simp
next
  case True
  with constructDefinition_result [OF assms(1,3), of env t] obtain t1 where
    c1: "constructDefinition env def_params t = Return 0 t1" by blast
  show ?thesis
  proof (cases "dynamics_accepted dyn_params")
    case False
    with constructDynamics_result [OF assms(2), of env t1]
    have "constructDynamics env dyn_params t1 = Return (- 1) t1" by simp
    with assms(1,2) c1 have "Task_init env gpm def_params dyn_params rs t = Return (- 4) t1"
      by (simp add: Task_init_def)
    with True False show ?thesis by simp
  next
    case acc: True
    with constructDynamics_result [OF assms(2), of env t1] obtain t2 where
      c2: "constructDynamics env dyn_params t1 = Return 0 t2" by blast
    with assms(1,2) c1 have "Task_init env gpm def_params dyn_params rs t
        = initialize_both env gpm def_params dyn_params rs t2"
      by (simp add: Task_init_def)
    with True acc initialize_both_codes [of env gpm def_params dyn_params rs t2]
    show ?thesis by simp
  qed
qed

text \<open>
  Claim C6. With no definition parameters \<^verbatim>\<open>Task::init\<close> returns \<open>-1\<close>, whatever the
  dynamics parameters are, and leaves the task as it was, so neither object is
  constructed; with definition parameters and no dynamics parameters it returns the other
  code \<open>-2\<close>, again with the task as it was.
\<close>

theorem Task_init_empty_params:
  "Task_init env gpm [] dyn_params rs t = Return (- 1) t \<and>
   (def_params \<noteq> [] \<longrightarrow> Task_init env gpm def_params [] rs t = Return (- 2) t)"
  by (simp add: Task_init_def)

text \<open>
  Claim C5, as amended. \<^verbatim>\<open>Task::update\<close> returns \<open>-2\<close> when one of the two objects is
  missing. Else it updates the definition; a code other than \<open>0\<close> ends the call with \<open>-2\<close>
  and the dynamics untouched; else it updates the dynamics with the new task function and
  Jacobian, and returns \<open>-2\<close> for a code other than \<open>0\<close> and \<open>0\<close> otherwise. The active
  flag of the task plays no part.
\<close>

theorem Task_update_sequence:
  "(def_ptr t = None \<or> dyn_ptr t = None \<longrightarrow> Task_update env cc rs t = Return (- 2) t) \<and>
   (\<forall>d y. def_ptr t = Some d \<and> dyn_ptr t = Some y \<longrightarrow>
      (TaskDefinition_update env cc rs d = Abort \<longrightarrow> Task_update env cc rs t = Abort) \<and>
      (\<forall>c d1. TaskDefinition_update env cc rs d = Return c d1 \<and> c \<noteq> 0 \<longrightarrow>
         Task_update env cc rs t = Return (- 2) (t\<lparr>def_ptr := Some d1\<rparr>)) \<and>
      (\<forall>d1 c y1. TaskDefinition_update env cc rs d = Return 0 d1 \<and>
         TaskDynamics_update env rs (def_e_of d1) (def_J_of d1) y = Return c y1 \<and> c \<noteq> 0 \<longrightarrow>
         Task_update env cc rs t = Return (- 2) (t\<lparr>def_ptr := Some d1, dyn_ptr := Some y1\<rparr>)) \<and>
      (\<forall>d1 y1. TaskDefinition_update env cc rs d = Return 0 d1 \<and>
         TaskDynamics_update env rs (def_e_of d1) (def_J_of d1) y = Return 0 y1 \<longrightarrow>
         Task_update env cc rs t = Return 0 (t\<lparr>def_ptr := Some d1, dyn_ptr := Some y1\<rparr>))) \<and>
   Task_update env cc rs (t\<lparr>active := b\<rparr>)
     = map_outcome (\<lambda>t'. t'\<lparr>active := b\<rparr>) (Task_update env cc rs t)"
  by (auto simp: Task_update_def map_outcome_def split: option.splits outcome.splits)

lemma sample_update_blind:
  "TaskAvoidCollisionsSDF_update blind_cc sample_rs sample_sdf =
     Return 0 (sample_sdf\<lparr>def_e := [0, 0],
                           def_J := \<lparr>mat_rows = [[0, 0], [0, 0]], mat_cols = 2\<rparr>\<rparr>)"
proof -
  let ?t0 = "sample_sdf\<lparr>def_e := [], def_J := \<lparr>mat_rows = [], mat_cols = getNumJoints sample_rs\<rparr>\<rparr>"
  have g: "obstacleGradientBulk blind_cc [pt] fr = Some [(0, 0, 0)]" for pt fr
    by (simp add: blind_cc_def)
  have v: "\<not> isValid blind_cc (0, 0, 0)" by (simp add: blind_cc_def)
  have p: "primitives sample_sdf = [PointPtr sample_point, SpherePtr sample_sphere]"
    by (simp add: sample_sdf_eq)
  have fk0: "primitiveForwardKinematics ?t0 (PointPtr sample_point) sample_rs
      = Return 0 [sample_kq_point]"
    by (simp only: pfk_cleared sample_fk_point)
  let ?t1 = "appended blind_cc (PointPtr sample_point) sample_kq_point (0, 0, 0) ?t0"
  have fk1: "primitiveForwardKinematics ?t1 (SpherePtr sample_sphere) sample_rs
      = Return 0 [sample_kq_sphere]"
    by (simp only: pfk_appended pfk_cleared sample_fk_sphere)
  have s1: "update_primitives blind_cc sample_rs [PointPtr sample_point, SpherePtr sample_sphere] ?t0
      = update_primitives blind_cc sample_rs [SpherePtr sample_sphere] ?t1"
    using update_primitives_step [OF fk0 g, of "[SpherePtr sample_sphere]"] v
    by (simp del: update_primitives.simps)
  have s2: "update_primitives blind_cc sample_rs [SpherePtr sample_sphere] ?t1
      = Return 0 (appended blind_cc (SpherePtr sample_sphere) sample_kq_sphere (0, 0, 0) ?t1)"
    using update_primitives_step [OF fk1 g, of "[]"] v
    by (simp del: update_primitives.simps) simp
  show ?thesis
    unfolding TaskAvoidCollisionsSDF_update_def p s1 s2
    by (simp add: appended_def v append_row_def sample_facts numeral_2_eq_2 function_value_def)
qed

lemma sample_update_failing:
  "TaskAvoidCollisionsSDF_update failing_cc sample_rs sample_sdf =
     Return (- 2) (sample_sdf\<lparr>def_e := [], def_J := \<lparr>mat_rows = [], mat_cols = 2\<rparr>\<rparr>)"
proof -
  let ?t0 = "sample_sdf\<lparr>def_e := [], def_J := \<lparr>mat_rows = [], mat_cols = 2\<rparr>\<rparr>"
  have n: "getNumJoints sample_rs = 2" by (simp add: sample_facts)
  have fk0: "primitiveForwardKinematics ?t0 (PointPtr sample_point) sample_rs
      = Return 0 [sample_kq_point]"
    by (simp only: pfk_cleared sample_fk_point)
  have g: "obstacleGradientBulk failing_cc pts fr = None" for pts fr
    by (simp add: failing_cc_def)
  have p: "primitives sample_sdf = [PointPtr sample_point, SpherePtr sample_sphere]"
    by (simp add: sample_sdf_eq)
  show ?thesis
    unfolding TaskAvoidCollisionsSDF_update_def p n
    by (simp add: fk0 g del: primitiveForwardKinematics.simps)
qed

lemma inactive_Task_ptrs:
  "def_ptr inactive_Task = Some (SDF_ptr sample_sdf)"
  "dyn_ptr inactive_Task = Some (Dynamics_ptr DynamicsFirstOrder_class
           \<lparr>task_name = [], priority = 0, active = False, visible = False, e_dot_star = []\<rparr>)"
  "active inactive_Task = False"
  by (simp_all add: inactive_Task_def sample_Task_def make_shared_dynamics_def sample_classes_def)

lemma sample_definition_update:
  "TaskDefinition_update sample_classes blind_cc sample_rs (SDF_ptr sample_sdf)
      = Return 0 (SDF_ptr (sample_sdf
           \<lparr>def_e := [0, 0], def_J := \<lparr>mat_rows = [[0, 0], [0, 0]], mat_cols = 2\<rparr>\<rparr>))"
  "TaskDefinition_update sample_classes failing_cc sample_rs (SDF_ptr sample_sdf)
      = Return (- 2) (SDF_ptr (sample_sdf
           \<lparr>def_e := [], def_J := \<lparr>mat_rows = [], mat_cols = 2\<rparr>\<rparr>))"
  by (simp_all add: sample_update_blind sample_update_failing map_outcome_def)

lemma sample_dynamics_update:
  "TaskDynamics_update sample_classes sample_rs [0, 0]
       \<lparr>mat_rows = [[0, 0], [0, 0]], mat_cols = 2\<rparr>
       (Dynamics_ptr DynamicsFirstOrder_class
           \<lparr>task_name = [], priority = 0, active = False, visible = False, e_dot_star = []\<rparr>)
      = Return 0 (Dynamics_ptr DynamicsFirstOrder_class
           \<lparr>task_name = [], priority = 0, active = False, visible = False,
            e_dot_star = [0, 0]\<rparr>)"
  by (simp add: sample_classes_def map_outcome_def)

lemma inactive_Task_update:
  "Task_update sample_classes blind_cc sample_rs inactive_Task = Return 0 blind_result"
  "Task_update sample_classes failing_cc sample_rs inactive_Task = Return (- 2) failing_result"
  by (simp_all add: Task_update_def inactive_Task_ptrs sample_definition_update
      sample_dynamics_update blind_result_def failing_result_def
      del: TaskDefinition_update.simps TaskDynamics_update.simps)

lemma blind_result_changed: "blind_result \<noteq> inactive_Task"
proof
  assume "blind_result = inactive_Task"
  then have "def_ptr blind_result = def_ptr inactive_Task" by simp
  then have "sample_sdf\<lparr>def_e := [0, 0],
       def_J := \<lparr>mat_rows = [[0, 0], [0, 0]], mat_cols = 2\<rparr>\<rparr> = sample_sdf"
    by (simp add: blind_result_def inactive_Task_ptrs)
  then have "def_e (sample_sdf\<lparr>def_e := [0, 0],
       def_J := \<lparr>mat_rows = [[0, 0], [0, 0]], mat_cols = 2\<rparr>\<rparr>) = def_e sample_sdf"
    by (rule arg_cong)
  then show False
    by (simp add: sample_sdf_eq new_TaskAvoidCollisionsSDF_def)
qed

text \<open>
  Claim C5 as stated fails: the update of an inactive task runs the update of its
  definition, which changes the task function, and it returns \<open>-2\<close> when the collision
  checker fails.
\<close>

theorem inactive_update_counterexample:
  "\<not> active inactive_Task \<and>
   Task_update sample_classes blind_cc sample_rs inactive_Task = Return 0 blind_result \<and>
   blind_result \<noteq> inactive_Task \<and>
   Task_update sample_classes failing_cc sample_rs inactive_Task = Return (- 2) failing_result"
  using blind_result_changed
  by (simp add: inactive_Task_update inactive_Task_ptrs)

theorem Task_update_sequence_witness:
  "Task_update sample_classes blind_cc sample_rs sample_Task = Return (- 2) sample_Task \<and>
   Task_update sample_classes blind_cc sample_rs inactive_Task = Return 0 blind_result \<and>
   Task_update sample_classes failing_cc sample_rs inactive_Task = Return (- 2) failing_result"
proof -
  let ?d1 = "SDF_ptr (sample_sdf
           \<lparr>def_e := [0, 0], def_J := \<lparr>mat_rows = [[0, 0], [0, 0]], mat_cols = 2\<rparr>\<rparr>)"
  have none: "def_ptr sample_Task = None \<or> dyn_ptr sample_Task = None"
    by (simp add: sample_Task_def)
  have a: "Task_update sample_classes blind_cc sample_rs sample_Task = Return (- 2) sample_Task"
    by (rule Task_update_sequence [of sample_Task sample_classes blind_cc sample_rs,
          THEN conjunct1, rule_format, OF none])
  have ptrs: "def_ptr inactive_Task = Some (SDF_ptr sample_sdf) \<and>
      dyn_ptr inactive_Task = Some (Dynamics_ptr DynamicsFirstOrder_class
           \<lparr>task_name = [], priority = 0, active = False, visible = False, e_dot_star = []\<rparr>)"
    by (simp add: inactive_Task_ptrs)
  have yu: "TaskDynamics_update sample_classes sample_rs (def_e_of ?d1) (def_J_of ?d1)
       (Dynamics_ptr DynamicsFirstOrder_class
           \<lparr>task_name = [], priority = 0, active = False, visible = False, e_dot_star = []\<rparr>)
      = Return 0 (Dynamics_ptr DynamicsFirstOrder_class
           \<lparr>task_name = [], priority = 0, active = False, visible = False,
            e_dot_star = [0, 0]\<rparr>)"
    using sample_dynamics_update by simp
  note blind = Task_update_sequence [of inactive_Task sample_classes blind_cc sample_rs,
      THEN conjunct2, THEN conjunct1, rule_format, OF ptrs]
  have b: "Task_update sample_classes blind_cc sample_rs inactive_Task = Return 0 blind_result"
    unfolding blind_result_def
    by (rule blind [THEN conjunct2, THEN conjunct2, THEN conjunct2, rule_format,
          OF conjI [OF sample_definition_update(1) yu]])
  note failing = Task_update_sequence [of inactive_Task sample_classes failing_cc sample_rs,
      THEN conjunct2, THEN conjunct1, rule_format, OF ptrs]
  have ne: "(- 2 :: int) \<noteq> 0" by simp
  have c: "Task_update sample_classes failing_cc sample_rs inactive_Task
      = Return (- 2) failing_result"
    unfolding failing_result_def
    by (rule failing [THEN conjunct2, THEN conjunct1, rule_format,
          OF conjI [OF sample_definition_update(2) ne]])
  from a b c show ?thesis by (intro conjI)
qed

lemma sample_constructs:
  "constructDefinition sample_classes (''TDefAvoidCollisionsSDF'' # ps) sample_Task
     = Return 0 (sample_Task\<lparr>def_ptr := Some (SDF_ptr new_TaskAvoidCollisionsSDF)\<rparr>)"
  "constructDynamics sample_classes (''TDynFirstOrder'' # qs) t
     = Return 0 (t\<lparr>dyn_ptr := Some (Dynamics_ptr DynamicsFirstOrder_class
           \<lparr>task_name = [], priority = 0, active = False, visible = False, e_dot_star = []\<rparr>)\<rparr>)"
  by (simp_all add: constructDefinition_def constructDynamics_def vector_at_def
      make_shared_definition_def make_shared_dynamics_def sample_classes_def)

lemma named_sdf_init_short:
  "TaskAvoidCollisionsSDF_init sample_gpm [''TDefAvoidCollisionsSDF''] sample_rs named_sdf
     = (- 2, named_sdf)"
  by (simp add: TaskAvoidCollisionsSDF_init_def)

lemma named_sdf_init:
  "TaskAvoidCollisionsSDF_init sample_gpm [''TDefAvoidCollisionsSDF'', ''p1'', ''s1'']
     sample_rs named_sdf = (0, named_sdf
     \<lparr>task_types := [1, 1], n_dimensions := 2, performance_measures := [],
      primitives := [PointPtr sample_point, SpherePtr sample_sphere],
      root_frame_id := ''base'',
      fk_solver_pos := Some (JntToCart sample_tree),
      fk_solver_jac := Some (JntToJac sample_tree)\<rparr>)"
  by (simp add: TaskAvoidCollisionsSDF_init_def reset_def sample_gpm_def
      getGeometricPrimitive_Point_def getGeometricPrimitive_Sphere_def
      kdl_getQNrFromLinkName_def sample_rs_def sample_tree_def sample_point_def
      sample_sphere_def new_TaskAvoidCollisionsSDF_def named_sdf_def numeral_2_eq_2)

lemma Task_init_to_initialize_both:
  "Task_init sample_classes sample_gpm (''TDefAvoidCollisionsSDF'' # ps)
     (''TDynFirstOrder'' # qs) sample_rs sample_Task
   = initialize_both sample_classes sample_gpm (''TDefAvoidCollisionsSDF'' # ps)
       (''TDynFirstOrder'' # qs) sample_rs constructed_Task"
  by (simp add: Task_init_def sample_constructs constructed_Task_def)

lemma constructed_attrs:
  "def_ptr constructed_Task = Some (SDF_ptr new_TaskAvoidCollisionsSDF)"
  "dyn_ptr constructed_Task = Some (Dynamics_ptr DynamicsFirstOrder_class
           \<lparr>task_name = [], priority = 0, active = False, visible = False, e_dot_star = []\<rparr>)"
  "set_definition_attributes (task_name constructed_Task) (priority constructed_Task)
     (active constructed_Task) (visible constructed_Task) (SDF_ptr new_TaskAvoidCollisionsSDF)
   = SDF_ptr named_sdf"
  "set_dynamics_attributes (task_name constructed_Task) (priority constructed_Task)
     (active constructed_Task) (visible constructed_Task)
     (Dynamics_ptr DynamicsFirstOrder_class
           \<lparr>task_name = [], priority = 0, active = False, visible = False, e_dot_star = []\<rparr>)
   = named_dynamics"
  by (simp_all add: constructed_Task_def sample_Task_def named_sdf_def named_dynamics_def)

lemma Task_init_short:
  "Task_init sample_classes sample_gpm [''TDefAvoidCollisionsSDF''] [''TDynFirstOrder'']
     sample_rs sample_Task
   = Return (- 5) (constructed_Task\<lparr>def_ptr := Some (SDF_ptr named_sdf),
                                    dyn_ptr := Some named_dynamics\<rparr>)"
  unfolding Task_init_to_initialize_both
  by (simp add: initialize_both_def constructed_attrs named_sdf_init_short
      del: set_definition_attributes.simps set_dynamics_attributes.simps)

lemma Task_init_sample:
  "Task_init sample_classes sample_gpm [''TDefAvoidCollisionsSDF'', ''p1'', ''s1'']
     [''TDynFirstOrder'', ''1.0''] sample_rs sample_Task = Return 0 initialised_Task"
proof -
  have dyn: "TaskDynamics_init sample_classes qs sample_rs ei ef named_dynamics
      = Return 0 named_dynamics" for qs ei ef
    by (simp add: named_dynamics_def sample_classes_def map_outcome_def)
  show ?thesis
    unfolding Task_init_to_initialize_both
    by (simp add: initialize_both_def constructed_attrs named_sdf_init dyn
        initialised_Task_def initialised_sdf_def
        del: set_definition_attributes.simps set_dynamics_attributes.simps
          TaskDynamics_init.simps)
qed

lemma initialised_sizes:
  "def_e initialised_sdf = []" "mat_rows (def_J initialised_sdf) = []"
  "task_types initialised_sdf = [1, 1]"
  by (simp_all add: initialised_sdf_def named_sdf_def new_TaskAvoidCollisionsSDF_def)

text \<open>
  Claim C1. \<^verbatim>\<open>Task::init\<close> returns \<open>0\<close> for an SDF avoidance task on two primitives:
  \<^verbatim>\<open>TaskAvoidCollisionsSDF::init\<close> has filled in two task types and left the task function
  and the Jacobian empty, so the task that \<^verbatim>\<open>init\<close> accepts does not pass
  \<^verbatim>\<open>checkConsistency\<close>.
\<close>

theorem init_skips_consistency_check:
  "Task_init sample_classes sample_gpm [''TDefAvoidCollisionsSDF'', ''p1'', ''s1'']
     [''TDynFirstOrder'', ''1.0''] sample_rs sample_Task = Return 0 initialised_Task \<and>
   length (def_e_of (SDF_ptr initialised_sdf)) = 0 \<and>
   length (task_types_of (SDF_ptr initialised_sdf)) = 2 \<and>
   def_ptr initialised_Task = Some (SDF_ptr initialised_sdf) \<and>
   \<not> checkConsistency initialised_Task sample_rs"
  by (simp add: Task_init_sample initialised_sizes checkConsistency_def initialised_Task_def
      named_dynamics_def)

theorem Task_init_empty_params_witness:
  "Task_init sample_classes sample_gpm [] [''TDynFirstOrder''] sample_rs sample_Task
     = Return (- 1) sample_Task \<and>
   [''TDefAvoidCollisionsSDF'', ''p1''] \<noteq> [] \<and>
   Task_init sample_classes sample_gpm [''TDefAvoidCollisionsSDF'', ''p1''] [] sample_rs
     sample_Task = Return (- 2) sample_Task"
  using Task_init_empty_params [of sample_classes sample_gpm "[''TDynFirstOrder'']" sample_rs
      sample_Task "[''TDefAvoidCollisionsSDF'', ''p1'']"]
  by simp

lemma sample_accepted:
  "definition_accepted [''TDefAvoidCollisionsSDF'']"
  "definition_accepted [''TDefAvoidCollisionsSDF'', ''p1'']"
  "dynamics_accepted [''TDynFirstOrder'']"
  "\<not> definition_accepted [''TDefNope'']"
  "\<not> definition_accepted [''TDefGeomProj'', ''box'', ''box'']"
  "\<not> dynamics_accepted [''TDynNope'']"
  by (simp_all add: definition_accepted_def dynamics_accepted_def definition_type_names_def
      dynamics_type_names_def projection_pairs_def)

text \<open>
  Claim C7 as stated fails: with the known tokens \<^verbatim>\<open>TDefAvoidCollisionsSDF\<close> and
  \<^verbatim>\<open>TDynFirstOrder\<close> \<^verbatim>\<open>Task::init\<close> returns the negative code \<open>-5\<close>, because the
  definition does not initialise without a primitive.
\<close>

theorem accepted_tokens_counterexample:
  "definition_accepted [''TDefAvoidCollisionsSDF''] \<and>
   dynamics_accepted [''TDynFirstOrder''] \<and>
   Task_init sample_classes sample_gpm [''TDefAvoidCollisionsSDF''] [''TDynFirstOrder'']
     sample_rs sample_Task
   = Return (- 5) (constructed_Task\<lparr>def_ptr := Some (SDF_ptr named_sdf),
                                    dyn_ptr := Some named_dynamics\<rparr>)"
  by (simp add: sample_accepted Task_init_short)

theorem Task_init_rejects_unknown_witness:
  "(\<exists>t'. Task_init sample_classes sample_gpm [''TDefNope''] [''TDynFirstOrder''] sample_rs
           sample_Task = Return (- 3) t') \<and>
   (\<exists>t'. Task_init sample_classes sample_gpm [''TDefGeomProj'', ''box'', ''box'']
           [''TDynFirstOrder''] sample_rs sample_Task = Return (- 3) t') \<and>
   (\<exists>t'. Task_init sample_classes sample_gpm [''TDefAvoidCollisionsSDF'', ''p1'']
           [''TDynNope''] sample_rs sample_Task = Return (- 4) t') \<and>
   \<not> (\<exists>t'. Task_init sample_classes sample_gpm [''TDefAvoidCollisionsSDF'', ''p1'']
           [''TDynFirstOrder''] sample_rs sample_Task = Return (- 3) t')"
proof -
  have a: "\<exists>t'. Task_init sample_classes sample_gpm [''TDefNope''] [''TDynFirstOrder''] sample_rs
           sample_Task = Return (- 3) t'"
    using Task_init_rejects_unknown [of "[''TDefNope'']" "[''TDynFirstOrder'']" sample_classes
        sample_gpm sample_rs sample_Task] sample_accepted
    by simp
  have b: "\<exists>t'. Task_init sample_classes sample_gpm [''TDefGeomProj'', ''box'', ''box'']
           [''TDynFirstOrder''] sample_rs sample_Task = Return (- 3) t'"
    using Task_init_rejects_unknown [of "[''TDefGeomProj'', ''box'', ''box'']"
        "[''TDynFirstOrder'']" sample_classes sample_gpm sample_rs sample_Task] sample_accepted
    by simp
  have c: "\<exists>t'. Task_init sample_classes sample_gpm [''TDefAvoidCollisionsSDF'', ''p1'']
           [''TDynNope''] sample_rs sample_Task = Return (- 4) t'"
    using Task_init_rejects_unknown [of "[''TDefAvoidCollisionsSDF'', ''p1'']"
        "[''TDynNope'']" sample_classes sample_gpm sample_rs sample_Task] sample_accepted
    by simp
  have d: "\<not> (\<exists>t'. Task_init sample_classes sample_gpm [''TDefAvoidCollisionsSDF'', ''p1'']
           [''TDynFirstOrder''] sample_rs sample_Task = Return (- 3) t')"
    using Task_init_rejects_unknown [of "[''TDefAvoidCollisionsSDF'', ''p1'']"
        "[''TDynFirstOrder'']" sample_classes sample_gpm sample_rs sample_Task] sample_accepted
    by simp
  from a b c d show ?thesis by (intro conjI)
qed

end
